theory Spec2Isabelle
  imports Complex_Main
begin

section \<open>Data model\<close>

text \<open>
  The embedding follows \<^verbatim>\<open>src/WaveTrack.cpp\<close>. Track times are C++ \<^verbatim>\<open>double\<close>s; they are
  modelled as the real numbers they denote. The editing functions take the sums,
  differences and comparisons of times exactly, and sample positions (\<^verbatim>\<open>sampleCount\<close>, a
  64-bit integer class) as unbounded integers. The two conversions between times and
  sample counts, \<^verbatim>\<open>TimeToLongSamples\<close> and \<^verbatim>\<open>LongSamplesToTime\<close>, are modelled with the
  rounding of binary64 arithmetic and the range of the 64-bit integer, because that
  rounding is what is asked about them.

  The two exceptions thrown by the functions modelled here.
  \<^verbatim>\<open>THROW_INCONSISTENCY_EXCEPTION\<close> is what the specification calls an ordering error;
  \<^verbatim>\<open>SimpleMessageBoxException\<close> with the text "There is not enough room available to paste
  the selection" is what it calls a capacity error.
\<close>

datatype error = InconsistencyException | NotEnoughRoom

text \<open>
  Modelled from the spec: class \<^verbatim>\<open>WaveClip\<close> is declared and implemented outside
  \<^verbatim>\<open>WaveTrack.cpp\<close>. Section 3 of the specification gives a clip an \<open>offset\<close> (the
  track-relative start time), \<open>numSamples\<close> at the clip's rate, a list of nested cut-line
  clips and the \<open>isPlaceholder\<close> mark. The envelope and the sample storage are external
  collaborators and carry no state here.
\<close>

datatype WaveClip = WaveClip
  (mOffset: real)
  (clipRate: int)
  (numSamples: int)
  (mCutLines: "WaveClip list")
  (mIsPlaceholder: bool)

text \<open>
  The members of \<^verbatim>\<open>WaveTrack\<close> that the functions below read and write: the clip
  collection \<^verbatim>\<open>mClips\<close>, in the order of the container, and the rate \<^verbatim>\<open>mRate\<close>, an
  \<^verbatim>\<open>int\<close> (the class itself is declared in a header that is not at hand).
\<close>

record WaveTrack =
  mClips :: "WaveClip list"
  mRate :: int

section \<open>Binary64 arithmetic\<close>

text \<open>
  A \<^verbatim>\<open>double\<close> is an IEEE 754 binary64 number: a finite one is an integer of magnitude
  below \<open>2 ^ 53\<close> times a power of two \<open>2 ^ e\<close> with \<open>- 1074 \<le> e \<le> 971\<close>. An arithmetic
  operation returns its exact result rounded to the nearest double, a tie going to the
  double whose integer is even; a rounded result beyond the largest double is an
  infinity.

  The exponent \<open>e\<close> of the unit in the last place for a magnitude \<open>a\<close>: the least
  \<open>e \<ge> - 1074\<close> with \<open>a < 2 ^ (e + 53)\<close>, found by counting up from \<open>- 1074\<close>. The count
  stops at \<open>972\<close>, which is beyond every finite double.
\<close>

fun ulp_search :: "nat \<Rightarrow> real \<Rightarrow> int \<Rightarrow> int" where
  "ulp_search 0 a e = e"
| "ulp_search (Suc fuel) a e =
     (if a < 2 powi (e + 53) then e else ulp_search fuel a (e + 1))"

definition ulp_exp :: "real \<Rightarrow> int" where
  "ulp_exp a = ulp_search 2046 a (- 1074)"

text \<open>Rounding to the nearest integer, a tie going to the even one.\<close>

definition roundeven :: "real \<Rightarrow> int" where
  "roundeven x =
     (let f = \<lfloor>x\<rfloor>; r = x - of_int f
      in if r < 1 / 2 then f else if r > 1 / 2 then f + 1
         else if even f then f else f + 1)"

text \<open>\<^verbatim>\<open>DBL_MAX\<close> of \<^verbatim>\<open><float.h>\<close>, the largest finite double.\<close>

definition DBL_MAX :: real where
  "DBL_MAX = (2 ^ 53 - 1) * 2 ^ 971"

text \<open>A real number rounded to the grid of the doubles, the exponent not bounded above.\<close>

definition binary64_round :: "real \<Rightarrow> real" where
  "binary64_round x =
     (let e = ulp_exp \<bar>x\<bar> in of_int (roundeven (x / 2 powi e)) * 2 powi e)"

text \<open>
  The double that an operation with exact result \<open>x\<close> returns; \<open>None\<close> is an infinity
  (overflow).
\<close>

definition binary64 :: "real \<Rightarrow> real option" where
  "binary64 x = (if \<bar>binary64_round x\<bar> > DBL_MAX then None else Some (binary64_round x))"

section \<open>Sample addressing\<close>

text \<open>
  \<^verbatim>\<open>WaveTrack::TimeToLongSamples\<close>: \<^verbatim>\<open>sampleCount( floor(t0 * mRate + 0.5) )\<close>. The \<^verbatim>\<open>int\<close>
  \<^verbatim>\<open>mRate\<close> converts to a double exactly; the product is rounded, the sum is rounded,
  \<^verbatim>\<open>floor\<close> is exact, and the conversion of the double to the 64-bit \<^verbatim>\<open>sampleCount\<close> is
  defined only for a value in the range of that integer. \<open>None\<close> is a call without a
  defined result: an infinite double or a value out of that range.
\<close>

definition TimeToLongSamples :: "WaveTrack \<Rightarrow> real \<Rightarrow> int option" where
  "TimeToLongSamples trk t0 =
     (case binary64 (t0 * of_int (mRate trk)) of
        None \<Rightarrow> None
      | Some p \<Rightarrow>
          (case binary64 (p + 1 / 2) of
             None \<Rightarrow> None
           | Some s \<Rightarrow>
               if - (2 ^ 63) \<le> \<lfloor>s\<rfloor> \<and> \<lfloor>s\<rfloor> < 2 ^ 63 then Some \<lfloor>s\<rfloor> else None))"

text \<open>
  \<^verbatim>\<open>WaveTrack::LongSamplesToTime\<close>: \<^verbatim>\<open>pos.as_double() / mRate\<close>. The 64-bit integer is
  rounded to a double and the quotient is rounded; \<open>None\<close> is the division by a rate of
  zero, whose result is no finite double.
\<close>

definition LongSamplesToTime :: "WaveTrack \<Rightarrow> int \<Rightarrow> real option" where
  "LongSamplesToTime trk pos =
     (if mRate trk = 0 then None
      else
        case binary64 (of_int pos) of
          None \<Rightarrow> None
        | Some d \<Rightarrow> binary64 (d / of_int (mRate trk)))"

text \<open>
  The formula of \<^verbatim>\<open>TimeToLongSamples\<close> in exact arithmetic: what the function returns when
  neither the product nor the sum is rounded. \<^verbatim>\<open>WaveTrack::Paste\<close> compares the sample of
  a time with a clip's start sample, which comes from the same formula; like all
  comparisons of the editing functions this one is taken exactly, on both sides.
\<close>

definition TimeToLongSamples_exact :: "WaveTrack \<Rightarrow> real \<Rightarrow> int" where
  "TimeToLongSamples_exact trk t0 = \<lfloor>t0 * of_int (mRate trk) + 1 / 2\<rfloor>"

section \<open>Clip helpers\<close>

text \<open>
  Modelled from the spec: the conversion of a time to a sample position at the clip's
  rate is not in \<^verbatim>\<open>WaveTrack.cpp\<close>. Section 2 gives the rounding rule \<open>round(t*rate)\<close>,
  for which \<^verbatim>\<open>TimeToLongSamples\<close> has the formula \<^verbatim>\<open>floor(t * rate + 0.5)\<close>; it is taken
  exactly.
\<close>

definition clipSample :: "WaveClip \<Rightarrow> real \<Rightarrow> int" where
  "clipSample clip t = \<lfloor>t * of_int (clipRate clip) + 1 / 2\<rfloor>"

text \<open>
  Modelled from the spec: \<^verbatim>\<open>WaveClip::GetStartTime\<close> is not in \<^verbatim>\<open>WaveTrack.cpp\<close>.
  Section 3: \<open>startTime = offset\<close>.
\<close>

definition WaveClip_GetStartTime :: "WaveClip \<Rightarrow> real" where
  "WaveClip_GetStartTime clip = mOffset clip"

text \<open>
  Modelled from the spec: \<^verbatim>\<open>WaveClip::GetEndTime\<close> is not in \<^verbatim>\<open>WaveTrack.cpp\<close>.
  Section 3: \<open>endTime = offset + numSamples/rate\<close>.
\<close>

definition WaveClip_GetEndTime :: "WaveClip \<Rightarrow> real" where
  "WaveClip_GetEndTime clip =
     mOffset clip + of_int (numSamples clip) / of_int (clipRate clip)"

text \<open>
  Modelled from the spec: \<^verbatim>\<open>WaveClip::GetStartSample\<close> is not in \<^verbatim>\<open>WaveTrack.cpp\<close>.
  Section 3: \<open>startSample = round(offset*rate)\<close>.
\<close>

definition GetStartSample :: "WaveClip \<Rightarrow> int" where
  "GetStartSample clip = clipSample clip (mOffset clip)"

text \<open>
  Modelled from the spec: \<^verbatim>\<open>WaveClip::GetEndSample\<close> is not in \<^verbatim>\<open>WaveTrack.cpp\<close>.
  Section 3: \<open>endSample = startSample + numSamples\<close>.
\<close>

definition GetEndSample :: "WaveClip \<Rightarrow> int" where
  "GetEndSample clip = GetStartSample clip + numSamples clip"

text \<open>
  Modelled from the spec: \<^verbatim>\<open>WaveClip::BeforeClip\<close> is not in \<^verbatim>\<open>WaveTrack.cpp\<close>. The
  specification classifies a clip against a region with sample-accurate boundaries, and
  step 3 of section 4.1 moves the clips that start "at or after \<open>t1\<close>": a time is before
  the clip when its sample is at or before the clip's first sample.
\<close>

definition BeforeClip :: "WaveClip \<Rightarrow> real \<Rightarrow> bool" where
  "BeforeClip clip t \<longleftrightarrow> clipSample clip t \<le> GetStartSample clip"

text \<open>
  Modelled from the spec: \<^verbatim>\<open>WaveClip::AfterClip\<close> is not in \<^verbatim>\<open>WaveTrack.cpp\<close>. A time is
  after the clip when its sample is at or past the clip's end sample (the clip covers
  \<open>[startSample, endSample)\<close>).
\<close>

definition AfterClip :: "WaveClip \<Rightarrow> real \<Rightarrow> bool" where
  "AfterClip clip t \<longleftrightarrow> clipSample clip t \<ge> GetEndSample clip"

text \<open>
  Modelled from the spec: \<^verbatim>\<open>WaveClip::WithinClip\<close> is not in \<^verbatim>\<open>WaveTrack.cpp\<close>. Section
  4.3: a time falls "strictly inside" a clip when its sample is strictly between the
  clip's first sample and its end sample.
\<close>

definition WithinClip :: "WaveClip \<Rightarrow> real \<Rightarrow> bool" where
  "WithinClip clip t \<longleftrightarrow>
     clipSample clip t > GetStartSample clip \<and> clipSample clip t < GetEndSample clip"

text \<open>
  Modelled from the spec: \<^verbatim>\<open>WaveClip::Offset\<close> is not in \<^verbatim>\<open>WaveTrack.cpp\<close>. It moves the
  clip's start by the given amount of time.
\<close>

definition Offset :: "real \<Rightarrow> WaveClip \<Rightarrow> WaveClip" where
  "Offset delta clip =
     WaveClip (mOffset clip + delta) (clipRate clip) (numSamples clip)
       (mCutLines clip) (mIsPlaceholder clip)"

text \<open>
  Modelled from the spec: \<^verbatim>\<open>WaveClip::SetOffset\<close> is not in \<^verbatim>\<open>WaveTrack.cpp\<close>. It sets the
  clip's start.
\<close>

definition SetOffset :: "real \<Rightarrow> WaveClip \<Rightarrow> WaveClip" where
  "SetOffset offset clip =
     WaveClip offset (clipRate clip) (numSamples clip)
       (mCutLines clip) (mIsPlaceholder clip)"

text \<open>
  Modelled from the spec: \<^verbatim>\<open>WaveClip::TimeToSamplesClip\<close> is not in \<^verbatim>\<open>WaveTrack.cpp\<close>.
  The position of a track time inside a clip, in samples of the clip and clamped to the
  clip: the rounding rule of section 2 applied to the time relative to the clip's start.
\<close>

definition TimeToSamplesClip :: "WaveClip \<Rightarrow> real \<Rightarrow> int" where
  "TimeToSamplesClip clip t =
     (if t < mOffset clip then 0
      else if t > WaveClip_GetEndTime clip then numSamples clip
      else \<lfloor>(t - mOffset clip) * of_int (clipRate clip) + 1 / 2\<rfloor>)"

text \<open>
  Modelled from the spec: \<^verbatim>\<open>WaveClip::Clear\<close> is not in \<^verbatim>\<open>WaveTrack.cpp\<close>. Section 4.1
  (d): the span \<open>[t0,t1)\<close> is collapsed out of the sample stream, the clip shortens, and
  what lies before \<open>t0\<close> and at or after \<open>t1\<close> stays, contiguous. The clip's offset is
  not changed (section 4.1 (b) shifts the remainder in a separate step).
\<close>

definition WaveClip_Clear :: "real \<Rightarrow> real \<Rightarrow> WaveClip \<Rightarrow> WaveClip" where
  "WaveClip_Clear t0 t1 clip =
     (let s0 = TimeToSamplesClip clip t0;
          s1 = TimeToSamplesClip clip t1
      in WaveClip (mOffset clip) (clipRate clip) (numSamples clip - (s1 - s0))
           (mCutLines clip) (mIsPlaceholder clip))"

text \<open>
  Modelled from the spec: \<^verbatim>\<open>WaveClip::ClearAndAddCutLine\<close> is not in \<^verbatim>\<open>WaveTrack.cpp\<close>.
  Section 4.1 (a): the span \<open>[t0,t1)\<close> is cleared and the removed span is kept as a new
  cut-line child, positioned at \<open>t0\<close> relative to the clip.
\<close>

definition WaveClip_ClearAndAddCutLine :: "real \<Rightarrow> real \<Rightarrow> WaveClip \<Rightarrow> WaveClip" where
  "WaveClip_ClearAndAddCutLine t0 t1 clip =
     (let s0 = TimeToSamplesClip clip t0;
          s1 = TimeToSamplesClip clip t1;
          clip_t0 = max t0 (WaveClip_GetStartTime clip);
          cutLine = WaveClip (clip_t0 - mOffset clip) (clipRate clip) (s1 - s0) [] False
      in WaveClip (mOffset clip) (clipRate clip) (numSamples clip - (s1 - s0))
           (mCutLines clip @ [cutLine]) (mIsPlaceholder clip))"

section \<open>Track queries\<close>

text \<open>\<^verbatim>\<open>WaveTrack::GetNumClips\<close>: \<^verbatim>\<open>mClips.size()\<close>.\<close>

definition GetNumClips :: "WaveTrack \<Rightarrow> int" where
  "GetNumClips trk = int (length (mClips trk))"

text \<open>
  \<^verbatim>\<open>WaveTrack::IsEmpty\<close>. The loop over \<^verbatim>\<open>mClips\<close> returns \<^verbatim>\<open>false\<close> at the first clip that
  overlaps the region.
\<close>

fun IsEmpty_loop :: "real \<Rightarrow> real \<Rightarrow> WaveClip list \<Rightarrow> bool" where
  "IsEmpty_loop t0 t1 [] = True"
| "IsEmpty_loop t0 t1 (clip # rest) =
     (if \<not> BeforeClip clip t1 \<and> \<not> AfterClip clip t0 then False
      else IsEmpty_loop t0 t1 rest)"

definition IsEmpty :: "WaveTrack \<Rightarrow> real \<Rightarrow> real \<Rightarrow> bool" where
  "IsEmpty trk t0 t1 = (if t0 > t1 then True else IsEmpty_loop t0 t1 (mClips trk))"

text \<open>
  \<^verbatim>\<open>WaveTrack::GetStartTime\<close> and \<^verbatim>\<open>WaveTrack::GetEndTime\<close>. The loop state is the pair
  \<^verbatim>\<open>(found, best)\<close>.
\<close>

fun GetStartTime_loop :: "bool \<times> real \<Rightarrow> WaveClip list \<Rightarrow> bool \<times> real" where
  "GetStartTime_loop (found, best) [] = (found, best)"
| "GetStartTime_loop (found, best) (clip # rest) =
     (if \<not> found then GetStartTime_loop (True, WaveClip_GetStartTime clip) rest
      else if WaveClip_GetStartTime clip < best
        then GetStartTime_loop (found, WaveClip_GetStartTime clip) rest
      else GetStartTime_loop (found, best) rest)"

definition GetStartTime :: "WaveTrack \<Rightarrow> real" where
  "GetStartTime trk =
     (if mClips trk = [] then 0 else snd (GetStartTime_loop (False, 0) (mClips trk)))"

fun GetEndTime_loop :: "bool \<times> real \<Rightarrow> WaveClip list \<Rightarrow> bool \<times> real" where
  "GetEndTime_loop (found, best) [] = (found, best)"
| "GetEndTime_loop (found, best) (clip # rest) =
     (if \<not> found then GetEndTime_loop (True, WaveClip_GetEndTime clip) rest
      else if WaveClip_GetEndTime clip > best
        then GetEndTime_loop (found, WaveClip_GetEndTime clip) rest
      else GetEndTime_loop (found, best) rest)"

definition GetEndTime :: "WaveTrack \<Rightarrow> real" where
  "GetEndTime trk =
     (if mClips trk = [] then 0 else snd (GetEndTime_loop (False, 0) (mClips trk)))"

section \<open>Region editor\<close>

text \<open>
  \<^verbatim>\<open>WaveTrack::HandleClear\<close>, the cut-line test: cut lines are added only when no clip
  that overlaps the region also sticks out of it.
\<close>

fun HandleClear_spans :: "real \<Rightarrow> real \<Rightarrow> WaveClip list \<Rightarrow> bool" where
  "HandleClear_spans t0 t1 [] = False"
| "HandleClear_spans t0 t1 (clip # rest) =
     (if \<not> BeforeClip clip t1 \<and> \<not> AfterClip clip t0 \<and>
         (BeforeClip clip t0 \<or> AfterClip clip t1) then True
      else HandleClear_spans t0 t1 rest)"

text \<open>
  The body of the classifying loop for one clip: whether the clip goes to
  \<^verbatim>\<open>clipsToDelete\<close>, and what it appends to \<^verbatim>\<open>clipsToAdd\<close>. Replacements are made from
  a copy of the clip (\<^verbatim>\<open>std::make_unique<WaveClip>( *clip, mDirManager, true )\<close>), which is
  the clip's value here.
\<close>

definition HandleClear_clip ::
  "real \<Rightarrow> real \<Rightarrow> bool \<Rightarrow> bool \<Rightarrow> WaveClip \<Rightarrow> bool \<times> WaveClip list" where
  "HandleClear_clip t0 t1 addCutLines split clip =
     (if BeforeClip clip t0 \<and> AfterClip clip t1 then (True, [])
      else if \<not> BeforeClip clip t1 \<and> \<not> AfterClip clip t0 then
        (if addCutLines then (True, [WaveClip_ClearAndAddCutLine t0 t1 clip])
         else if split then
           (if BeforeClip clip t0 then
              (True, [Offset (t1 - WaveClip_GetStartTime clip)
                        (WaveClip_Clear (WaveClip_GetStartTime clip) t1 clip)])
            else if AfterClip clip t1 then
              (True, [WaveClip_Clear t0 (WaveClip_GetEndTime clip) clip])
            else
              (True, [WaveClip_Clear t0 (WaveClip_GetEndTime clip) clip,
                      Offset (t1 - WaveClip_GetStartTime clip)
                        (WaveClip_Clear (WaveClip_GetStartTime clip) t1 clip)]))
         else (True, [WaveClip_Clear t0 t1 clip]))
      else (False, []))"

text \<open>
  The commit phase: clips that start at or after \<^verbatim>\<open>t1\<close> are offset unless splitting or
  clips may not move, the clips of \<^verbatim>\<open>clipsToDelete\<close> are erased, and \<^verbatim>\<open>clipsToAdd\<close> is
  appended.
\<close>

definition HandleClear_shift :: "bool \<Rightarrow> real \<Rightarrow> real \<Rightarrow> bool \<Rightarrow> WaveClip \<Rightarrow> WaveClip" where
  "HandleClear_shift editClipCanMove t0 t1 split clip =
     (if BeforeClip clip t1 then
        (if \<not> split \<and> editClipCanMove then Offset (- (t1 - t0)) clip else clip)
      else clip)"

text \<open>
  \<^verbatim>\<open>editClipCanMove\<close> is the preference read through \<^verbatim>\<open>gPrefs->GetEditClipsCanMove()\<close>. The
  result is the exception thrown, if any, and the track as the call leaves it.
\<close>

definition HandleClear ::
  "bool \<Rightarrow> real \<Rightarrow> real \<Rightarrow> bool \<Rightarrow> bool \<Rightarrow> WaveTrack \<Rightarrow> error option \<times> WaveTrack" where
  "HandleClear editClipCanMove t0 t1 addCutLines split trk =
     (if t1 < t0 then (Some InconsistencyException, trk)
      else
        let addCutLines' = (addCutLines \<and> \<not> HandleClear_spans t0 t1 (mClips trk));
            plans = map (HandleClear_clip t0 t1 addCutLines' split) (mClips trk);
            moved = map (HandleClear_shift editClipCanMove t0 t1 split) (mClips trk);
            kept = map snd (filter (\<lambda>(plan, clip). \<not> fst plan) (zip plans moved));
            clipsToAdd = concat (map snd plans)
        in (None, trk\<lparr>mClips := kept @ clipsToAdd\<rparr>))"

definition Clear :: "bool \<Rightarrow> real \<Rightarrow> real \<Rightarrow> WaveTrack \<Rightarrow> error option \<times> WaveTrack" where
  "Clear editClipCanMove t0 t1 trk = HandleClear editClipCanMove t0 t1 False False trk"

definition ClearAndAddCutLine ::
  "bool \<Rightarrow> real \<Rightarrow> real \<Rightarrow> WaveTrack \<Rightarrow> error option \<times> WaveTrack" where
  "ClearAndAddCutLine editClipCanMove t0 t1 trk =
     HandleClear editClipCanMove t0 t1 True False trk"

definition SplitDelete ::
  "bool \<Rightarrow> real \<Rightarrow> real \<Rightarrow> WaveTrack \<Rightarrow> error option \<times> WaveTrack" where
  "SplitDelete editClipCanMove t0 t1 trk = HandleClear editClipCanMove t0 t1 False True trk"

section \<open>Copy, Cut and Silence\<close>

text \<open>
  Modelled from the spec: the copy constructor of \<^verbatim>\<open>WaveClip\<close> is not in
  \<^verbatim>\<open>WaveTrack.cpp\<close>. It duplicates the clip, with its nested cut lines when
  \<^verbatim>\<open>copyCutlines\<close> is set.
\<close>

definition WaveClip_copy :: "bool \<Rightarrow> WaveClip \<Rightarrow> WaveClip" where
  "WaveClip_copy copyCutlines clip =
     WaveClip (mOffset clip) (clipRate clip) (numSamples clip)
       (if copyCutlines then mCutLines clip else []) (mIsPlaceholder clip)"

text \<open>
  Modelled from the spec: the constructor of \<^verbatim>\<open>WaveClip\<close> that copies a part of a clip is
  not in \<^verbatim>\<open>WaveTrack.cpp\<close>. It keeps the samples between two times and, when
  \<^verbatim>\<open>copyCutlines\<close> is set, the cut lines positioned between them; it keeps the offset of
  the original, which \<^verbatim>\<open>WaveTrack::Copy\<close> then moves.
\<close>

definition WaveClip_copyRange :: "bool \<Rightarrow> real \<Rightarrow> real \<Rightarrow> WaveClip \<Rightarrow> WaveClip" where
  "WaveClip_copyRange copyCutlines t0 t1 clip =
     (let s0 = TimeToSamplesClip clip t0;
          s1 = TimeToSamplesClip clip t1
      in WaveClip (mOffset clip) (clipRate clip) (s1 - s0)
           (if copyCutlines
            then map (\<lambda>cut. SetOffset (mOffset clip + mOffset cut - t0) cut)
                   (filter (\<lambda>cut. t0 \<le> mOffset clip + mOffset cut \<and>
                                    mOffset clip + mOffset cut \<le> t1) (mCutLines clip))
            else [])
           (mIsPlaceholder clip))"

text \<open>
  Modelled from the spec: \<^verbatim>\<open>WaveClip::InsertSilence\<close> is not in \<^verbatim>\<open>WaveTrack.cpp\<close>.
  Inserting silence lengthens the clip by the samples of the given duration.
\<close>

definition WaveClip_InsertSilence :: "real \<Rightarrow> real \<Rightarrow> WaveClip \<Rightarrow> WaveClip" where
  "WaveClip_InsertSilence t len clip =
     WaveClip (mOffset clip) (clipRate clip) (numSamples clip + clipSample clip len)
       (mCutLines clip) (mIsPlaceholder clip)"

text \<open>
  Modelled from the spec: \<^verbatim>\<open>WaveClip::SetIsPlaceholder\<close> is not in \<^verbatim>\<open>WaveTrack.cpp\<close>. It
  sets the \<open>isPlaceholder\<close> mark of section 3.
\<close>

definition SetIsPlaceholder :: "bool \<Rightarrow> WaveClip \<Rightarrow> WaveClip" where
  "SetIsPlaceholder val clip =
     WaveClip (mOffset clip) (clipRate clip) (numSamples clip) (mCutLines clip) val"

text \<open>The body of the loop of \<^verbatim>\<open>WaveTrack::Copy\<close> for one clip: what it appends.\<close>

definition Copy_clip :: "real \<Rightarrow> real \<Rightarrow> bool \<Rightarrow> WaveClip \<Rightarrow> WaveClip list" where
  "Copy_clip t0 t1 forClipboard clip =
     (if t0 \<le> WaveClip_GetStartTime clip \<and> t1 \<ge> WaveClip_GetEndTime clip then
        [Offset (- t0) (WaveClip_copy (\<not> forClipboard) clip)]
      else if t1 > WaveClip_GetStartTime clip \<and> t0 < WaveClip_GetEndTime clip then
        (let clip_t0 = max t0 (WaveClip_GetStartTime clip);
             clip_t1 = min t1 (WaveClip_GetEndTime clip);
             newClip = Offset (- t0)
                         (WaveClip_copyRange (\<not> forClipboard) clip_t0 clip_t1 clip)
         in [if mOffset newClip < 0 then SetOffset 0 newClip else newClip])
      else [])"

text \<open>
  \<^verbatim>\<open>WaveTrack::Copy\<close>. The new track takes the rate of this one (\<^verbatim>\<open>Init\<close>); a selection
  that ends in silence gets a placeholder clip when the copy is for the clipboard.
\<close>

definition Copy :: "real \<Rightarrow> real \<Rightarrow> bool \<Rightarrow> WaveTrack \<Rightarrow> error + WaveTrack" where
  "Copy t0 t1 forClipboard trk =
     (if t1 < t0 then Inl InconsistencyException
      else
        let newTrack = \<lparr>mClips = concat (map (Copy_clip t0 t1 forClipboard) (mClips trk)),
                        mRate = mRate trk\<rparr>
        in if forClipboard \<and>
              GetEndTime newTrack + 1 / of_int (mRate newTrack) < t1 - t0 then
             (let placeholder =
                    Offset (GetEndTime newTrack)
                      (WaveClip_InsertSilence 0 ((t1 - t0) - GetEndTime newTrack)
                         (SetIsPlaceholder True (WaveClip 0 (mRate newTrack) 0 [] False)))
              in Inr (newTrack\<lparr>mClips := mClips newTrack @ [placeholder]\<rparr>))
           else Inr newTrack)"

text \<open>
  \<^verbatim>\<open>WaveTrack::Cut\<close>: \<^verbatim>\<open>Copy\<close> (for the clipboard, the default), then \<^verbatim>\<open>Clear\<close>. The
  result is the exception or the copied track, and this track as the call leaves it.
\<close>

definition Cut :: "bool \<Rightarrow> real \<Rightarrow> real \<Rightarrow> WaveTrack \<Rightarrow> (error + WaveTrack) \<times> WaveTrack" where
  "Cut editClipCanMove t0 t1 trk =
     (if t1 < t0 then (Inl InconsistencyException, trk)
      else
        case Copy t0 t1 True trk of
          Inl e \<Rightarrow> (Inl e, trk)
        | Inr tmp \<Rightarrow>
            (case Clear editClipCanMove t0 t1 trk of
               (Some e, trk') \<Rightarrow> (Inl e, trk')
             | (None, trk') \<Rightarrow> (Inr tmp, trk')))"

text \<open>
  Modelled from the spec: \<^verbatim>\<open>Sequence::SetSilence\<close> writes zeroes into the sample storage,
  an external collaborator; no field of the clip changes.
\<close>

definition SetSilence :: "int \<Rightarrow> int \<Rightarrow> WaveClip \<Rightarrow> WaveClip" where
  "SetSilence s0 len clip = clip"

text \<open>The body of the loop of \<^verbatim>\<open>WaveTrack::Silence\<close> for one clip.\<close>

definition Silence_clip :: "int \<Rightarrow> int \<Rightarrow> WaveClip \<Rightarrow> WaveClip" where
  "Silence_clip start len clip =
     (let clipStart = GetStartSample clip;
          clipEnd = GetEndSample clip
      in if clipEnd > start \<and> clipStart < start + len then
           (let samplesToCopy = start + len - clipStart;
                samplesToCopy = (if samplesToCopy > numSamples clip then numSamples clip
                                 else samplesToCopy);
                startDelta = clipStart - start;
                inclipDelta = (if startDelta < 0 then - startDelta else 0);
                samplesToCopy = (if startDelta < 0 then samplesToCopy - inclipDelta
                                 else samplesToCopy)
            in SetSilence inclipDelta samplesToCopy clip)
         else clip)"

definition Silence :: "real \<Rightarrow> real \<Rightarrow> WaveTrack \<Rightarrow> error option \<times> WaveTrack" where
  "Silence t0 t1 trk =
     (if t1 < t0 then (Some InconsistencyException, trk)
      else
        let start = \<lfloor>t0 * of_int (mRate trk) + 1 / 2\<rfloor>;
            len = \<lfloor>t1 * of_int (mRate trk) + 1 / 2\<rfloor> - start
        in (None, trk\<lparr>mClips := map (Silence_clip start len) (mClips trk)\<rparr>))"

section \<open>Paste\<close>











section \<open>Minimum and maximum\<close>

text \<open>\<^verbatim>\<open>FLT_MAX\<close> of \<^verbatim>\<open><float.h>\<close> for IEEE single precision.\<close>

definition FLT_MAX :: real where
  "FLT_MAX = (2 ^ 24 - 1) * 2 ^ 104"

text \<open>
  \<^verbatim>\<open>WaveTrack::GetMinMax\<close>. \<open>clipGetMinMax\<close> stands for \<^verbatim>\<open>WaveClip::GetMinMax\<close>, which
  reads the sample storage and is not in \<^verbatim>\<open>WaveTrack.cpp\<close>; it may throw. The loop state
  is \<^verbatim>\<open>(clipFound, results)\<close>.
\<close>

fun GetMinMax_loop ::
  "(WaveClip \<Rightarrow> real \<Rightarrow> real \<Rightarrow> bool \<Rightarrow> error + real \<times> real) \<Rightarrow> real \<Rightarrow> real \<Rightarrow> bool \<Rightarrow>
   bool \<times> real \<times> real \<Rightarrow> WaveClip list \<Rightarrow> error + bool \<times> real \<times> real" where
  "GetMinMax_loop clipGetMinMax t0 t1 mayThrow (clipFound, lo, hi) [] =
     Inr (clipFound, lo, hi)"
| "GetMinMax_loop clipGetMinMax t0 t1 mayThrow (clipFound, lo, hi) (clip # rest) =
     (if t1 \<ge> WaveClip_GetStartTime clip \<and> t0 \<le> WaveClip_GetEndTime clip then
        (case clipGetMinMax clip t0 t1 mayThrow of
           Inl e \<Rightarrow> Inl e
         | Inr (clipLo, clipHi) \<Rightarrow>
             GetMinMax_loop clipGetMinMax t0 t1 mayThrow
               (True, if clipLo < lo then clipLo else lo, if clipHi > hi then clipHi else hi)
               rest)
      else GetMinMax_loop clipGetMinMax t0 t1 mayThrow (clipFound, lo, hi) rest)"

definition GetMinMax ::
  "(WaveClip \<Rightarrow> real \<Rightarrow> real \<Rightarrow> bool \<Rightarrow> error + real \<times> real) \<Rightarrow>
   WaveTrack \<Rightarrow> real \<Rightarrow> real \<Rightarrow> bool \<Rightarrow> error + real \<times> real" where
  "GetMinMax clipGetMinMax trk t0 t1 mayThrow =
     (let results = (FLT_MAX, - FLT_MAX)
      in if t0 > t1 then (if mayThrow then Inl InconsistencyException else Inr results)
         else if t0 = t1 then Inr results
         else
           (case GetMinMax_loop clipGetMinMax t0 t1 mayThrow (False, results) (mClips trk) of
              Inl e \<Rightarrow> Inl e
            | Inr (clipFound, found) \<Rightarrow> if \<not> clipFound then Inr (0, 0) else Inr found))"

section \<open>Sample read cache\<close>

text \<open>
  Modelled from the spec: the enumeration \<^verbatim>\<open>sampleFormat\<close> is declared outside
  \<^verbatim>\<open>WaveTrack.cpp\<close>; section 4.6 singles out the floating-point format among the sample
  formats.
\<close>

datatype sampleFormat = int16Sample | int24Sample | floatSample

text \<open>
  Modelled from the spec: \<^verbatim>\<open>WaveTrackCache::Buffer\<close> is declared outside \<^verbatim>\<open>WaveTrack.cpp\<close>.
  Section 4.6: a block-sized buffer tagged with the range \<open>[start, start + len)\<close> that it
  covers; \<^verbatim>\<open>end()\<close> is \<open>start + len\<close>.
\<close>

record Buffer =
  buf_data :: "real list"
  buf_start :: int
  buf_len :: int

definition buf_end :: "Buffer \<Rightarrow> int" where
  "buf_end b = buf_start b + buf_len b"

text \<open>
  The members of \<^verbatim>\<open>WaveTrackCache\<close> that \<^verbatim>\<open>Get\<close> reads and writes: the two buffers
  \<^verbatim>\<open>mBuffers[0]\<close> and \<^verbatim>\<open>mBuffers[1]\<close>, the number of valid buffers, and the contents of
  the overlap buffer.
\<close>

record WaveTrackCache =
  mBuffers0 :: Buffer
  mBuffers1 :: Buffer
  mNValidBuffers :: int
  mOverlapBuffer :: "real list"

definition mBuffers :: "WaveTrackCache \<Rightarrow> int \<Rightarrow> Buffer" where
  "mBuffers c i = (if i = 0 then mBuffers0 c else mBuffers1 c)"

definition swapBuffers :: "WaveTrackCache \<Rightarrow> WaveTrackCache" where
  "swapBuffers c = c\<lparr>mBuffers0 := mBuffers1 c, mBuffers1 := mBuffers0 c\<rparr>"

text \<open>
  The track behind the cache (\<^verbatim>\<open>mPTrack\<close>) is read through three functions whose
  results depend on the sample storage: \<^verbatim>\<open>WaveTrack::Get\<close> (\<open>None\<close> when it returns
  \<^verbatim>\<open>false\<close>, otherwise the samples it wrote), \<^verbatim>\<open>GetBlockStart\<close> and
  \<^verbatim>\<open>GetBestBlockSize\<close>. They are parameters of the model.
\<close>

record TrackReader =
  trackGet :: "sampleFormat \<Rightarrow> int \<Rightarrow> nat \<Rightarrow> bool \<Rightarrow> real list option"
  GetBlockStart :: "int \<Rightarrow> int"
  GetBestBlockSize :: "int \<Rightarrow> nat"

text \<open>
  Every call of \<^verbatim>\<open>mPTrack->Get\<close> is recorded, in order, with its format, start, length
  and whether it succeeded; the record is not part of the program's state.
\<close>

type_synonym fetch = "sampleFormat \<times> int \<times> nat \<times> bool"

text \<open>"Discard cached results that we no longer need": the flags \<^verbatim>\<open>fillFirst\<close> and
  \<^verbatim>\<open>fillSecond\<close> and the cache after the swap, if any.\<close>

definition Get_discard ::
  "TrackReader \<Rightarrow> WaveTrackCache \<Rightarrow> int \<Rightarrow> int \<Rightarrow> bool \<times> bool \<times> WaveTrackCache" where
  "Get_discard rd c start end' =
     (let fillFirst = (mNValidBuffers c < 1);
          fillSecond = (mNValidBuffers c < 2)
      in if mNValidBuffers c > 0 \<and>
            (end' \<le> buf_start (mBuffers c 0) \<or>
             start \<ge> buf_end (mBuffers c (mNValidBuffers c - 1)))
         then (True, True, c)
         else if mNValidBuffers c = 2 \<and> start \<ge> buf_start (mBuffers c 1) \<and>
                 end' > buf_end (mBuffers c 1)
         then (fillFirst, True, (swapBuffers c)\<lparr>mNValidBuffers := 1\<rparr>)
         else if mNValidBuffers c > 0 \<and> start < buf_start (mBuffers c 0) \<and>
                 0 \<le> GetBlockStart rd start
         then (True, False, (swapBuffers c)\<lparr>mNValidBuffers := 0\<rparr>)
         else (fillFirst, fillSecond, c))"

text \<open>
  "Refill buffers as needed", first buffer. The result is \<open>None\<close> when the fetch failed
  (the function returns 0), otherwise the new \<^verbatim>\<open>fillSecond\<close>; with it the cache and the
  fetches made.
\<close>

definition Get_fillFirst ::
  "TrackReader \<Rightarrow> bool \<Rightarrow> bool \<Rightarrow> bool \<Rightarrow> WaveTrackCache \<Rightarrow> int \<Rightarrow>
   bool option \<times> WaveTrackCache \<times> fetch list" where
  "Get_fillFirst rd mayThrow fillFirst fillSecond c start =
     (if fillFirst then
        (let start0 = GetBlockStart rd start
         in if start0 \<ge> 0 then
              (let len0 = GetBestBlockSize rd start0
               in case trackGet rd floatSample start0 len0 mayThrow of
                    None \<Rightarrow> (None, c, [(floatSample, start0, len0, False)])
                  | Some d \<Rightarrow>
                      (let c1 = c\<lparr>mBuffers0 :=
                                   \<lparr>buf_data = d, buf_start = start0, buf_len = int len0\<rparr>\<rparr>;
                           fillSecond' =
                             (if \<not> fillSecond \<and> buf_end (mBuffers c1 0) \<noteq> buf_start (mBuffers c1 1)
                              then True else fillSecond)
                       in (Some fillSecond',
                           c1\<lparr>mNValidBuffers := (if fillSecond' then 1 else 2)\<rparr>,
                           [(floatSample, start0, len0, True)])))
            else (Some False, c\<lparr>mNValidBuffers := 0\<rparr>, []))
      else (Some fillSecond, c, []))"

text \<open>"Refill buffers as needed", second buffer: whether it went well, the cache and the
  fetches made.\<close>

definition Get_fillSecond ::
  "TrackReader \<Rightarrow> bool \<Rightarrow> bool \<Rightarrow> WaveTrackCache \<Rightarrow> int \<Rightarrow>
   bool \<times> WaveTrackCache \<times> fetch list" where
  "Get_fillSecond rd mayThrow fillSecond c end' =
     (if fillSecond then
        (let c1 = c\<lparr>mNValidBuffers := 1\<rparr>;
             end0 = buf_end (mBuffers c1 0)
         in if end' > end0 then
              (let start1 = GetBlockStart rd end0
               in if start1 = end0 then
                    (let len1 = GetBestBlockSize rd start1
                     in case trackGet rd floatSample start1 len1 mayThrow of
                          None \<Rightarrow> (False, c1, [(floatSample, start1, len1, False)])
                        | Some d \<Rightarrow>
                            (True,
                             c1\<lparr>mBuffers1 :=
                                  \<lparr>buf_data = d, buf_start = start1, buf_len = int len1\<rparr>,
                                mNValidBuffers := 2\<rparr>,
                             [(floatSample, start1, len1, True)]))
                  else (True, c1, []))
            else (True, c1, []))
      else (True, c, []))"

text \<open>
  "Now satisfy the request from the buffers": the loop over the valid buffers. Its state
  is the index \<^verbatim>\<open>ii\<close>, \<^verbatim>\<open>start\<close>, \<^verbatim>\<open>remaining\<close> and what has been written to the overlap
  buffer so far. \<open>Inl\<close> is the early return of a pointer into a cache buffer, given as
  the samples from that position on; \<open>Inr\<close> is the state after the loop.
\<close>

function Get_serve ::
  "WaveTrackCache \<Rightarrow> nat \<Rightarrow> int \<Rightarrow> int \<Rightarrow> int \<Rightarrow> nat \<Rightarrow> real list \<Rightarrow>
   real list + int \<times> nat \<times> real list" where
  "Get_serve c len initLen ii start remaining written =
     (if ii < mNValidBuffers c \<and> remaining > 0 then
        (let starti = start - buf_start (mBuffers c ii);
             leni = min (int remaining) (buf_len (mBuffers c ii) - starti)
         in if initLen \<le> 0 \<and> leni = int len then
              Inl (drop (nat starti) (buf_data (mBuffers c ii)))
            else if leni > 0 then
              Get_serve c len initLen (ii + 1) (start + leni) (remaining - nat leni)
                (written @ take (nat leni) (drop (nat starti) (buf_data (mBuffers c ii))))
            else Get_serve c len initLen (ii + 1) start remaining written)
      else Inr (start, remaining, written))"
  by pat_completeness auto
termination
  by (relation "measure (\<lambda>(c, len, initLen, ii, start, remaining, written).
        nat (mNValidBuffers c - ii))") auto

text \<open>
  The end of \<^verbatim>\<open>WaveTrackCache::Get\<close>: the early return from the loop, or the direct
  fetch of what remains ("Very big request!") and the return of the overlap buffer.
\<close>

definition Get_finish ::
  "TrackReader \<Rightarrow> WaveTrackCache \<Rightarrow> sampleFormat \<Rightarrow> bool \<Rightarrow> fetch list \<Rightarrow>
   real list + int \<times> nat \<times> real list \<Rightarrow> real list option \<times> WaveTrackCache \<times> fetch list" where
  "Get_finish rd c format mayThrow made served =
     (case served of
        Inl p \<Rightarrow> (Some p, c, made)
      | Inr (start, remaining, written) \<Rightarrow>
          (if remaining > 0 then
             (case trackGet rd format start remaining mayThrow of
                None \<Rightarrow>
                  (None, c\<lparr>mOverlapBuffer := written\<rparr>,
                   made @ [(format, start, remaining, False)])
              | Some d \<Rightarrow>
                  (Some (written @ d), c\<lparr>mOverlapBuffer := written @ d\<rparr>,
                   made @ [(format, start, remaining, True)]))
           else (Some written, c\<lparr>mOverlapBuffer := written\<rparr>, made)))"

text \<open>
  \<^verbatim>\<open>WaveTrackCache::Get\<close>. The result is the pointer returned (\<open>None\<close> for the null
  pointer, otherwise the samples it points to), the cache as the call leaves it and the
  fetches made.
\<close>

definition Get ::
  "TrackReader \<Rightarrow> WaveTrackCache \<Rightarrow> sampleFormat \<Rightarrow> int \<Rightarrow> nat \<Rightarrow> bool \<Rightarrow>
   real list option \<times> WaveTrackCache \<times> fetch list" where
  "Get rd c format start len mayThrow =
     (if format = floatSample \<and> len > 0 then
        (let end' = start + int len;
             (fillFirst, fillSecond, c1) = Get_discard rd c start end'
         in case Get_fillFirst rd mayThrow fillFirst fillSecond c1 start of
              (None, c2, log1) \<Rightarrow> (None, c2, log1)
            | (Some fillSecond', c2, log1) \<Rightarrow>
                (case Get_fillSecond rd mayThrow fillSecond' c2 end' of
                   (False, c3, log2) \<Rightarrow> (None, c3, log1 @ log2)
                 | (True, c3, log2) \<Rightarrow>
                     (let initLen = (if mNValidBuffers c3 < 1 then int len
                                     else min (int len) (buf_start (mBuffers c3 0) - start))
                      in if initLen > 0 then
                           (case trackGet rd format start (nat initLen) mayThrow of
                              None \<Rightarrow>
                                (None, c3, log1 @ log2 @ [(format, start, nat initLen, False)])
                            | Some d \<Rightarrow>
                                Get_finish rd c3 format mayThrow
                                  (log1 @ log2 @ [(format, start, nat initLen, True)])
                                  (Get_serve c3 len initLen 0 (start + initLen)
                                     (len - nat initLen) d))
                         else
                           Get_finish rd c3 format mayThrow (log1 @ log2)
                             (Get_serve c3 len initLen 0 start len []))))
      else
        (case trackGet rd format start len mayThrow of
           Some d \<Rightarrow> (Some d, c\<lparr>mOverlapBuffer := d\<rparr>, [(format, start, len, True)])
         | None \<Rightarrow> (None, c, [(format, start, len, False)])))"

section \<open>Auxiliary notions for the statements\<close>

text \<open>The span of track time that a clip covers, as \<open>(startTime, endTime)\<close>.\<close>

definition clipSpan :: "WaveClip \<Rightarrow> real \<times> real" where
  "clipSpan clip = (WaveClip_GetStartTime clip, WaveClip_GetEndTime clip)"

text \<open>
  The function \<^verbatim>\<open>round\<close> of the C library, which the rounding rule \<open>round(t*rate)\<close> of
  the specification names: the nearest integer, a value half way between two integers
  going away from zero.
\<close>

definition c_round :: "real \<Rightarrow> int" where
  "c_round x = (if x \<ge> 0 then \<lfloor>x + 1 / 2\<rfloor> else - \<lfloor>- x + 1 / 2\<rfloor>)"

text \<open>Whether a recorded fetch succeeded.\<close>

definition fetch_ok :: "fetch \<Rightarrow> bool" where
  "fetch_ok f = snd (snd (snd f))"



section \<open>Ordering errors of the region editor\<close>

lemmas clip_defs =
  BeforeClip_def AfterClip_def WithinClip_def clipSample_def GetStartSample_def
  GetEndSample_def WaveClip_GetStartTime_def WaveClip_GetEndTime_def TimeToSamplesClip_def
  WaveClip_Clear_def Offset_def

text \<open>
  C1. If \<open>t1 < t0\<close>, \<^verbatim>\<open>HandleClear(t0, t1, addCutLines, split)\<close> throws the inconsistency
  exception (the ordering error) and the track is exactly as before the call, whatever the
  flags and the clip-shifting preference; so do \<^verbatim>\<open>Clear\<close>, \<^verbatim>\<open>ClearAndAddCutLine\<close> and
  \<^verbatim>\<open>SplitDelete\<close>.
\<close>

theorem HandleClear_reversed_throws:
  "t1 < t0 \<Longrightarrow>
     HandleClear editClipCanMove t0 t1 addCutLines split trk
       = (Some InconsistencyException, trk) \<and>
     Clear editClipCanMove t0 t1 trk = (Some InconsistencyException, trk) \<and>
     ClearAndAddCutLine editClipCanMove t0 t1 trk = (Some InconsistencyException, trk) \<and>
     SplitDelete editClipCanMove t0 t1 trk = (Some InconsistencyException, trk)"
  by (simp add: HandleClear_def Clear_def ClearAndAddCutLine_def SplitDelete_def)

theorem HandleClear_reversed_throws_witness:
  "(3 :: real) < 4 \<and>
   HandleClear True 4 3 True False
     \<lparr>mClips = [WaveClip 0 44100 441000 [] False], mRate = 44100\<rparr>
     = (Some InconsistencyException,
        \<lparr>mClips = [WaveClip 0 44100 441000 [] False], mRate = 44100\<rparr>)"
  using HandleClear_reversed_throws [of 3 4 True True False
      "\<lparr>mClips = [WaveClip 0 44100 441000 [] False], mRate = 44100\<rparr>"]
  by simp

section \<open>The split-delete scenario\<close>

text \<open>
  C2, as stated, fails: after \<^verbatim>\<open>SplitDelete(3.0, 4.0)\<close> on the one clip \<open>[0, 10)\<close> at
  44100 Hz no clip spans \<open>[3, 9)\<close>, under either setting of the preference.
\<close>

theorem SplitDelete_scenario_counterexample:
  "(3, 9) \<notin> set (map clipSpan (mClips (snd (SplitDelete True 3 4
       \<lparr>mClips = [WaveClip 0 44100 441000 [] False], mRate = 44100\<rparr>)))) \<and>
   (3, 9) \<notin> set (map clipSpan (mClips (snd (SplitDelete False 3 4
       \<lparr>mClips = [WaveClip 0 44100 441000 [] False], mRate = 44100\<rparr>))))"
  by (simp add: SplitDelete_def HandleClear_def HandleClear_clip_def HandleClear_shift_def
        clip_defs clipSpan_def)

text \<open>
  C2, amended. For a track at 44100 Hz holding exactly one clip that spans \<open>[0, 10)\<close>,
  \<^verbatim>\<open>SplitDelete(3.0, 4.0)\<close> returns normally and leaves exactly two clips, one spanning
  \<open>[0, 3)\<close> and one spanning \<open>[4, 10)\<close>: the tail keeps its place. \<^verbatim>\<open>GetNumClips()\<close> is 2.
\<close>

theorem SplitDelete_scenario:
  assumes "mOffset clip = 0" and "clipRate clip = 44100" and "numSamples clip = 441000"
  shows "\<exists>trk'. SplitDelete editClipCanMove 3 4 \<lparr>mClips = [clip], mRate = 44100\<rparr>
                  = (None, trk') \<and>
           map clipSpan (mClips trk') = [(0, 3), (4, 10)] \<and> GetNumClips trk' = 2"
  using assms
  by (simp add: SplitDelete_def HandleClear_def HandleClear_clip_def HandleClear_shift_def
        clip_defs clipSpan_def GetNumClips_def)

theorem SplitDelete_scenario_witness:
  "\<exists>trk'. SplitDelete True 3 4
             \<lparr>mClips = [WaveClip 0 44100 441000 [] False], mRate = 44100\<rparr> = (None, trk') \<and>
          map clipSpan (mClips trk') = [(0, 3), (4, 10)] \<and> GetNumClips trk' = 2"
  using SplitDelete_scenario [of "WaveClip 0 44100 441000 [] False" True]
  by simp

section \<open>Sample addressing\<close>

lemma ulp_search_ge: "e \<le> ulp_search n a e"
proof (induction n arbitrary: e)
  case 0
  then show ?case by simp
next
  case (Suc n)
  from Suc.IH [of "e + 1"] have "e \<le> ulp_search n a (e + 1)" by simp
  then show ?case by simp
qed

lemma ulp_search_upper:
  "a < 2 powi (e + int n + 53) \<Longrightarrow> a < 2 powi (ulp_search n a e + 53)"
proof (induction n arbitrary: e)
  case 0
  then show ?case by simp
next
  case (Suc n)
  have "e + 1 + int n + 53 = e + int (Suc n) + 53" by simp
  with Suc.prems have "a < 2 powi (e + 1 + int n + 53)" by simp
  with Suc.IH [of "e + 1"] show ?case by simp
qed

lemma ulp_search_lower:
  "ulp_search n a e = e \<or> 2 powi (ulp_search n a e + 52) \<le> a"
proof (induction n arbitrary: e)
  case 0
  then show ?case by simp
next
  case (Suc n)
  show ?case
  proof (cases "a < 2 powi (e + 53)")
    case True
    then show ?thesis by simp
  next
    case False
    then have le: "2 powi (e + 1 + 52) \<le> a" by (simp add: add.commute add.left_commute)
    from Suc.IH [of "e + 1"] le show ?thesis using False by auto
  qed
qed

lemma ulp_exp_ge: "- 1074 \<le> ulp_exp a"
  unfolding ulp_exp_def by (rule ulp_search_ge)

lemma ulp_exp_upper: "a < 2 powi 1025 \<Longrightarrow> a < 2 powi (ulp_exp a + 53)"
  unfolding ulp_exp_def by (rule ulp_search_upper) simp

lemma ulp_exp_lower: "ulp_exp a = - 1074 \<or> 2 powi (ulp_exp a + 52) \<le> a"
  unfolding ulp_exp_def by (rule ulp_search_lower)

lemma ulp_exp_eq:
  assumes "- 1074 \<le> e" and "e \<le> 971" and "a < 2 powi (e + 53)"
    and "e = - 1074 \<or> 2 powi (e + 52) \<le> a"
  shows "ulp_exp a = e"
proof (rule antisym)
  have "(2::real) powi (e + 53) \<le> 2 powi 1025"
    using assms(2) by (intro power_int_increasing) simp_all
  with assms(3) have "a < 2 powi 1025" by simp
  then have up: "a < 2 powi (ulp_exp a + 53)" by (rule ulp_exp_upper)
  show "ulp_exp a \<le> e"
  proof (rule ccontr)
    assume "\<not> ulp_exp a \<le> e"
    then have gt: "e < ulp_exp a" by simp
    with assms(1) have "ulp_exp a \<noteq> - 1074" by simp
    with ulp_exp_lower [of a] have "2 powi (ulp_exp a + 52) \<le> a" by simp
    moreover have "(2::real) powi (e + 53) \<le> 2 powi (ulp_exp a + 52)"
      using gt by (intro power_int_increasing) simp_all
    ultimately show False using assms(3) by simp
  qed
  show "e \<le> ulp_exp a"
  proof (rule ccontr)
    assume "\<not> e \<le> ulp_exp a"
    then have lt: "ulp_exp a < e" by simp
    with ulp_exp_ge [of a] have "e \<noteq> - 1074" by simp
    with assms(4) have "2 powi (e + 52) \<le> a" by simp
    moreover have "(2::real) powi (ulp_exp a + 53) \<le> 2 powi (e + 52)"
      using lt by (intro power_int_increasing) simp_all
    ultimately show False using up by simp
  qed
qed

lemma roundeven_error: "\<bar>of_int (roundeven z) - z\<bar> \<le> 1 / 2"
proof -
  have "of_int \<lfloor>z\<rfloor> \<le> z" "z < of_int \<lfloor>z\<rfloor> + 1" by linarith+
  then show ?thesis by (auto simp: roundeven_def Let_def)
qed

lemma roundeven_of_int [simp]: "roundeven (of_int k) = k"
  by (simp add: roundeven_def)

text \<open>The rounding error of one operation: half a unit in the last place.\<close>

lemma binary64_round_error:
  assumes "\<bar>x\<bar> < 2 powi 1025"
  shows "\<bar>binary64_round x - x\<bar> \<le> \<bar>x\<bar> / 2 ^ 53 + 1 / 2 ^ 1075"
proof -
  let ?e = "ulp_exp \<bar>x\<bar>"
  let ?y = "binary64_round x"
  have p: "(0::real) < 2 powi ?e" by simp
  have y: "?y = of_int (roundeven (x / 2 powi ?e)) * 2 powi ?e"
    by (simp add: binary64_round_def Let_def)
  have "?y - x = (of_int (roundeven (x / 2 powi ?e)) - x / 2 powi ?e) * 2 powi ?e"
    using p by (simp add: y field_simps)
  then have "\<bar>?y - x\<bar> = \<bar>of_int (roundeven (x / 2 powi ?e)) - x / 2 powi ?e\<bar> * 2 powi ?e"
    using p by (simp add: abs_mult)
  also have "\<dots> \<le> (1 / 2) * 2 powi ?e"
    using p roundeven_error [of "x / 2 powi ?e"] by (intro mult_right_mono) simp_all
  finally have half: "\<bar>?y - x\<bar> \<le> 2 powi ?e / 2" by simp
  from ulp_exp_lower [of "\<bar>x\<bar>"] show ?thesis
  proof
    assume "?e = - 1074"
    then have "(2::real) powi ?e / 2 = 1 / 2 ^ 1075"
      by (simp add: power_int_minus field_simps)
    with half have "\<bar>?y - x\<bar> \<le> 1 / 2 ^ 1075" by simp
    moreover have "0 \<le> \<bar>x\<bar> / 2 ^ 53" by simp
    ultimately show ?thesis by linarith
  next
    assume le: "2 powi (?e + 52) \<le> \<bar>x\<bar>"
    have "(2::real) powi (?e + 52) = 2 powi ?e * 2 ^ 52"
      by (subst power_int_add) simp_all
    with le have "2 powi ?e * 2 ^ 52 \<le> \<bar>x\<bar>" by simp
    then have "2 powi ?e / 2 \<le> \<bar>x\<bar> / 2 ^ 53" by (simp add: field_simps)
    with half have "\<bar>?y - x\<bar> \<le> \<bar>x\<bar> / 2 ^ 53" by simp
    moreover have "(0::real) \<le> 1 / 2 ^ 1075" by simp
    ultimately show ?thesis by linarith
  qed
qed

lemma tiny: "(1::real) / 2 ^ 1075 \<le> 1 / 2 ^ 60"
  by (intro divide_left_mono power_increasing) simp_all

lemma power_1025: "(2::real) ^ 65 \<le> 2 powi 1025"
  by simp

text \<open>An operation whose exact result is at most \<open>2 ^ 64\<close> in size does not overflow.\<close>

lemma binary64_returns:
  assumes "\<bar>x\<bar> \<le> 2 ^ 64"
  shows "binary64 x = Some (binary64_round x)"
    and "\<bar>binary64_round x - x\<bar> \<le> \<bar>x\<bar> / 2 ^ 53 + 1 / 2 ^ 1075"
proof -
  have "(2::real) ^ 64 < 2 ^ 65" by simp
  with assms power_1025 have "\<bar>x\<bar> < 2 powi 1025" by linarith
  then show err: "\<bar>binary64_round x - x\<bar> \<le> \<bar>x\<bar> / 2 ^ 53 + 1 / 2 ^ 1075"
    by (rule binary64_round_error)
  have "\<bar>x\<bar> / 2 ^ 53 \<le> 2 ^ 64 / 2 ^ 53"
    using assms by (intro divide_right_mono) simp_all
  then have "\<bar>x\<bar> / 2 ^ 53 \<le> 2 ^ 11" by simp
  with err tiny have "\<bar>binary64_round x - x\<bar> \<le> 2 ^ 11 + 1" by simp
  with assms have "\<bar>binary64_round x\<bar> \<le> 2 ^ 64 + 2 ^ 11 + 1" by linarith
  moreover have "(2::real) ^ 64 + 2 ^ 11 + 1 \<le> DBL_MAX" by (simp add: DBL_MAX_def)
  ultimately have "\<not> \<bar>binary64_round x\<bar> > DBL_MAX" by linarith
  then show "binary64 x = Some (binary64_round x)" by (simp add: binary64_def)
qed

lemma binary64_round_eval:
  assumes "- 1074 \<le> e" and "e \<le> 971" and "\<bar>x\<bar> < 2 powi (e + 53)"
    and "e = - 1074 \<or> 2 powi (e + 52) \<le> \<bar>x\<bar>"
  shows "binary64_round x = of_int (roundeven (x / 2 powi e)) * 2 powi e"
  using ulp_exp_eq [OF assms] by (simp add: binary64_round_def)


lemma TimeToLongSamples_near:
  assumes "\<bar>x\<bar> \<le> 2 ^ 62" and x: "x = t * of_int (mRate trk)"
  shows "\<exists>n. TimeToLongSamples trk t = Some n \<and>
             \<bar>of_int n - x\<bar> \<le> 1 / 2 + \<bar>x\<bar> / 2 ^ 51 + 1 / 2 ^ 53"
proof -
  let ?p = "binary64_round x"
  let ?s = "binary64_round (?p + 1 / 2)"
  let ?n = "\<lfloor>?s\<rfloor>"
  define u where "u = \<bar>x\<bar> / 2 ^ 53"
  define h :: real where "h = 1 / 2 ^ 1075"
  have h60: "h \<le> 1 / 2 ^ 60" and h0: "0 \<le> h" by (simp_all add: h_def tiny)
  have u0: "0 \<le> u" by (simp add: u_def)
  have "\<bar>x\<bar> / 2 ^ 53 \<le> 2 ^ 62 / 2 ^ 53"
    using assms(1) by (intro divide_right_mono) simp_all
  then have u9: "u \<le> 2 ^ 9" by (simp add: u_def)
  have x64: "\<bar>x\<bar> \<le> 2 ^ 64" using assms(1) by simp
  from binary64_returns [OF x64] have p: "binary64 x = Some ?p" and pe: "\<bar>?p - x\<bar> \<le> u + h"
    by (simp_all add: u_def h_def)
  have q63: "\<bar>?p + 1 / 2\<bar> \<le> \<bar>x\<bar> + u + h + 1 / 2" using pe by linarith
  with assms(1) u9 h60 have q64: "\<bar>?p + 1 / 2\<bar> \<le> 2 ^ 64" by simp
  from binary64_returns [OF q64] have s: "binary64 (?p + 1 / 2) = Some ?s"
    and se0: "\<bar>?s - (?p + 1 / 2)\<bar> \<le> \<bar>?p + 1 / 2\<bar> / 2 ^ 53 + h"
    by (simp_all add: h_def)
  have "\<bar>?p + 1 / 2\<bar> / 2 ^ 53 \<le> (\<bar>x\<bar> + u + h + 1 / 2) / 2 ^ 53"
    using q63 by (intro divide_right_mono) simp_all
  also have "\<dots> = u + (u + h + 1 / 2) / 2 ^ 53" by (simp add: u_def field_simps)
  also have "\<dots> \<le> u + (u + u + u) / 2 ^ 53 + 1 / 2 ^ 54 + h"
  proof -
    have "(u + h + 1 / 2) / 2 ^ 53 = u / 2 ^ 53 + h / 2 ^ 53 + 1 / 2 ^ 54"
      by (simp add: field_simps)
    moreover have "h / 2 ^ 53 \<le> h" using h0 by (simp add: field_simps)
    moreover have "u / 2 ^ 53 \<le> (u + u + u) / 2 ^ 53" using u0 by (simp add: field_simps)
    ultimately show ?thesis by linarith
  qed
  finally have q53: "\<bar>?p + 1 / 2\<bar> / 2 ^ 53 \<le> u + (u + u + u) / 2 ^ 53 + 1 / 2 ^ 54 + h" .
  have "(u + u + u) / 2 ^ 53 \<le> u" using u0 by (simp add: field_simps)
  with q53 se0 have se: "\<bar>?s - (?p + 1 / 2)\<bar> \<le> 2 * u + 1 / 2 ^ 54 + 2 * h" by linarith
  from pe se have tot: "\<bar>?s - (x + 1 / 2)\<bar> \<le> 3 * u + 1 / 2 ^ 54 + 3 * h" by linarith
  have fl: "of_int ?n \<le> ?s" "?s < of_int ?n + 1" by linarith+
  have "3 * h \<le> 1 / 2 ^ 54"
  proof -
    have "3 * h \<le> 3 * (1 / 2 ^ 60)" using h60 by simp
    also have "\<dots> \<le> 1 / 2 ^ 54" by simp
    finally show ?thesis .
  qed
  with tot have tot': "\<bar>?s - (x + 1 / 2)\<bar> \<le> 3 * u + 1 / 2 ^ 53" by simp
  have "3 * u \<le> \<bar>x\<bar> / 2 ^ 51" by (simp add: u_def field_simps)
  with tot' fl have near: "\<bar>of_int ?n - x\<bar> \<le> 1 / 2 + \<bar>x\<bar> / 2 ^ 51 + 1 / 2 ^ 53"
    by linarith
  have "\<bar>?s\<bar> \<le> \<bar>x\<bar> + 1 / 2 + 3 * u + 1 / 2 ^ 53" using tot' by linarith
  with assms(1) u9 have "\<bar>?s\<bar> \<le> 2 ^ 62 + 2 ^ 12" by simp
  then have "- (2 ^ 62 + 2 ^ 12) \<le> ?s" "?s \<le> 2 ^ 62 + 2 ^ 12" by linarith+
  then have "- (2 ^ 62 + 2 ^ 12) \<le> ?n" "?n \<le> 2 ^ 62 + 2 ^ 12"
    by (simp_all add: le_floor_iff floor_le_iff)
  then have range: "- (2 ^ 63) \<le> ?n \<and> ?n < 2 ^ 63" by simp
  have "TimeToLongSamples trk t = Some ?n"
    using p s range by (simp add: TimeToLongSamples_def x)
  with near show ?thesis by blast
qed


lemma three_ulps: "(0::real) \<le> a \<Longrightarrow> 3 * (a / 2 ^ 53) \<le> a / 2 ^ 51"
  by (simp add: field_simps)

lemma LongSamplesToTime_near:
  assumes r: "mRate trk \<noteq> 0" and n: "\<bar>n\<bar> \<le> 2 ^ 63"
  shows "\<exists>v. LongSamplesToTime trk n = Some v \<and>
             \<bar>v - of_int n / of_int (mRate trk)\<bar>
               \<le> \<bar>of_int n / of_int (mRate trk)\<bar> / 2 ^ 51 + 1 / 2 ^ 1073"
proof -
  let ?r = "of_int (mRate trk) :: real"
  let ?x = "of_int n / ?r"
  let ?d = "binary64_round (of_int n)"
  let ?v = "binary64_round (?d / ?r)"
  define h :: real where "h = 1 / 2 ^ 1075"
  have h60: "h \<le> 1 / 2 ^ 60" and h0: "0 \<le> h" by (simp_all add: h_def tiny)
  from r have "1 \<le> \<bar>mRate trk\<bar>" by simp
  then have "(1::real) \<le> of_int \<bar>mRate trk\<bar>" by (simp only: of_int_1_le_iff)
  then have r1: "1 \<le> \<bar>?r\<bar>" by simp
  then have rpos: "0 < \<bar>?r\<bar>" by linarith
  have n63: "\<bar>of_int n :: real\<bar> \<le> 2 ^ 63"
  proof -
    have "\<bar>of_int n :: real\<bar> = of_int \<bar>n\<bar>" by simp
    also have "\<dots> \<le> of_int (2 ^ 63)" using n by (subst of_int_le_iff)
    finally show ?thesis by simp
  qed
  then have n64: "\<bar>of_int n :: real\<bar> \<le> 2 ^ 64" by simp
  from binary64_returns [OF n64] have d: "binary64 (of_int n) = Some ?d"
    and de: "\<bar>?d - of_int n\<bar> \<le> \<bar>of_int n\<bar> / 2 ^ 53 + h"
    by (simp_all add: h_def)
  have "\<bar>of_int n :: real\<bar> / 2 ^ 53 \<le> 2 ^ 63 / 2 ^ 53"
    using n63 by (intro divide_right_mono) simp_all
  then have "\<bar>of_int n :: real\<bar> / 2 ^ 53 \<le> 2 ^ 10" by simp
  with de h60 have "\<bar>?d - of_int n\<bar> \<le> 2 ^ 10 + 1" by simp
  moreover have "(2::real) ^ 63 + (2 ^ 10 + 1) \<le> 2 ^ 64" by simp
  ultimately have dbound: "\<bar>?d\<bar> \<le> 2 ^ 64" using n63 by linarith
  have "\<bar>?d / ?r\<bar> = \<bar>?d\<bar> / \<bar>?r\<bar>" by simp
  also have "\<dots> \<le> \<bar>?d\<bar> / 1" using r1 by (intro divide_left_mono) simp_all
  finally have q64: "\<bar>?d / ?r\<bar> \<le> 2 ^ 64" using dbound by simp
  from binary64_returns [OF q64] have v: "binary64 (?d / ?r) = Some ?v"
    and ve: "\<bar>?v - ?d / ?r\<bar> \<le> \<bar>?d / ?r\<bar> / 2 ^ 53 + h"
    by (simp_all add: h_def)
  text \<open>The error of the quotient of the rounded numerator.\<close>
  have "?d / ?r - ?x = (?d - of_int n) / ?r" by (simp add: diff_divide_distrib)
  then have "\<bar>?d / ?r - ?x\<bar> = \<bar>?d - of_int n\<bar> / \<bar>?r\<bar>" by simp
  also have "\<dots> \<le> (\<bar>of_int n\<bar> / 2 ^ 53 + h) / \<bar>?r\<bar>"
    using de rpos by (intro divide_right_mono) simp_all
  also have "\<dots> = \<bar>?x\<bar> / 2 ^ 53 + h / \<bar>?r\<bar>"
    by (simp add: add_divide_distrib)
  also have "\<dots> \<le> \<bar>?x\<bar> / 2 ^ 53 + h"
  proof -
    have "h / \<bar>?r\<bar> \<le> h / 1" using r1 h0 by (intro divide_left_mono) simp_all
    then show ?thesis by simp
  qed
  finally have qe: "\<bar>?d / ?r - ?x\<bar> \<le> \<bar>?x\<bar> / 2 ^ 53 + h" .
  define u where "u = \<bar>?x\<bar> / 2 ^ 53"
  have u0: "0 \<le> u" by (simp add: u_def)
  from qe have "\<bar>?d / ?r\<bar> \<le> \<bar>?x\<bar> + u + h" unfolding u_def by linarith
  then have "\<bar>?d / ?r\<bar> / 2 ^ 53 \<le> (\<bar>?x\<bar> + u + h) / 2 ^ 53"
    by (intro divide_right_mono) simp_all
  also have "\<dots> = u + u / 2 ^ 53 + h / 2 ^ 53" by (simp add: u_def field_simps)
  also have "\<dots> \<le> u + u + h"
  proof -
    have "u / 2 ^ 53 \<le> u" using u0 by (simp add: field_simps)
    moreover have "h / 2 ^ 53 \<le> h" using h0 by (simp add: field_simps)
    ultimately show ?thesis by linarith
  qed
  finally have "\<bar>?d / ?r\<bar> / 2 ^ 53 \<le> 2 * u + h" by simp
  with ve qe have "\<bar>?v - ?x\<bar> \<le> 3 * u + 3 * h" unfolding u_def by linarith
  moreover have "3 * u \<le> \<bar>?x\<bar> / 2 ^ 51"
    unfolding u_def by (rule three_ulps) simp
  moreover have "3 * h \<le> 1 / 2 ^ 1073" by (simp add: h_def field_simps)
  ultimately have "\<bar>?v - ?x\<bar> \<le> \<bar>?x\<bar> / 2 ^ 51 + 1 / 2 ^ 1073" by linarith
  moreover have "LongSamplesToTime trk n = Some ?v"
    using r d v by (simp add: LongSamplesToTime_def)
  ultimately show ?thesis by blast
qed

lemma binary64_exact:
  assumes "- 1074 \<le> e" and "e \<le> 971" and "\<bar>x\<bar> < 2 powi (e + 53)"
    and "e = - 1074 \<or> 2 powi (e + 52) \<le> \<bar>x\<bar>"
    and "x / 2 powi e = of_int m"
  shows "binary64 x = Some x"
proof -
  have p: "(2::real) powi e \<noteq> 0" by simp
  from binary64_round_eval [OF assms(1-4)] assms(5)
  have "binary64_round x = x / 2 powi e * 2 powi e" by simp
  then have r: "binary64_round x = x" using p by simp
  have "(2::real) powi (e + 53) = 2 powi e * 2 ^ 53" by (subst power_int_add) simp_all
  with assms(3) have "\<bar>x\<bar> < 2 powi e * 2 ^ 53" by simp
  then have "\<bar>x / 2 powi e\<bar> < 2 ^ 53" by (simp add: field_simps)
  with assms(5) have "\<bar>of_int m :: real\<bar> < of_int (2 ^ 53)" by simp
  then have "\<bar>m\<bar> < 2 ^ 53" by (simp only: of_int_abs [symmetric] of_int_less_iff)
  then have "\<bar>m\<bar> \<le> 2 ^ 53 - 1" by simp
  then have "(of_int \<bar>m\<bar> :: real) \<le> of_int (2 ^ 53 - 1)" by (simp only: of_int_le_iff)
  then have "\<bar>of_int m :: real\<bar> \<le> 2 ^ 53 - 1" by simp
  with assms(5) have "\<bar>x / 2 powi e\<bar> \<le> 2 ^ 53 - 1" by simp
  then have "\<bar>x\<bar> \<le> (2 ^ 53 - 1) * 2 powi e" by (simp add: field_simps)
  also have "\<dots> \<le> (2 ^ 53 - 1) * 2 powi 971"
    using assms(2) by (intro mult_left_mono power_int_increasing) simp_all
  also have "\<dots> = DBL_MAX" by (simp add: DBL_MAX_def)
  finally have "\<bar>x\<bar> \<le> DBL_MAX" .
  with r show ?thesis by (simp add: binary64_def not_less)
qed

text \<open>
  C6, as stated, fails. At rate 1 and \<open>t = (2 ^ 53 - 1) / 2 ^ 54\<close>, the double just below
  one half, the sum \<open>t * rate + 0.5\<close> is rounded up to 1, so \<^verbatim>\<open>TimeToLongSamples(t)\<close> is 1
  although 0 is nearer to \<open>t * rate\<close>. At 44100 Hz and \<open>t = - 0.125\<close> the product is
  \<open>- 5512.5\<close>, exactly, and the function returns \<open>- 5512\<close> where \<^verbatim>\<open>round\<close> gives \<open>- 5513\<close>.
\<close>

theorem TimeToLongSamples_rounding_counterexample:
  "TimeToLongSamples \<lparr>mClips = [], mRate = 1\<rparr> ((2 ^ 53 - 1) / 2 ^ 54) = Some 1 \<and>
   \<bar>0 - (2 ^ 53 - 1) / 2 ^ 54 * 1\<bar> < \<bar>1 - (2 ^ 53 - 1) / 2 ^ 54 * (1::real)\<bar> \<and>
   TimeToLongSamples \<lparr>mClips = [], mRate = 44100\<rparr> (- 1 / 8) = Some (- 5512) \<and>
   c_round (- 1 / 8 * 44100) = - 5513"
proof -
  have p1: "binary64 ((2 ^ 53 - 1) / 2 ^ 54) = Some ((2 ^ 53 - 1) / 2 ^ 54)"
    by (rule binary64_exact [where e = "- 54" and m = "2 ^ 53 - 1"])
       (simp_all add: power_int_minus)
  have r1: "binary64_round ((2 ^ 53 - 1) / 2 ^ 54 + 1 / 2) = 1"
    by (subst binary64_round_eval [where e = "- 53"])
       (simp_all add: power_int_minus roundeven_def)
  have s1: "binary64 ((2 ^ 53 - 1) / 2 ^ 54 + 1 / 2) = Some 1"
    unfolding binary64_def r1 by (simp add: DBL_MAX_def)
  have p2: "binary64 (- 11025 / 2) = Some (- 11025 / 2)"
    by (rule binary64_exact [where e = "- 40" and m = "- 11025 * 2 ^ 39"])
       (simp_all add: power_int_minus)
  have s2: "binary64 (- 5512) = Some (- 5512)"
    by (rule binary64_exact [where e = "- 40" and m = "- 5512 * 2 ^ 40"])
       (simp_all add: power_int_minus)
  have a: "TimeToLongSamples \<lparr>mClips = [], mRate = 1\<rparr> ((2 ^ 53 - 1) / 2 ^ 54) = Some 1"
    using p1 s1 by (simp add: TimeToLongSamples_def)
  have b: "\<bar>0 - (2 ^ 53 - 1) / 2 ^ 54 * 1\<bar> < \<bar>1 - (2 ^ 53 - 1) / 2 ^ 54 * (1::real)\<bar>"
    by simp
  have c: "TimeToLongSamples \<lparr>mClips = [], mRate = 44100\<rparr> (- 1 / 8) = Some (- 5512)"
    using p2 s2 by (simp add: TimeToLongSamples_def)
  have d: "c_round (- 1 / 8 * 44100) = - 5513"
    by (simp add: c_round_def)
  from a b c d show ?thesis by blast
qed

text \<open>
  C6, amended. For every time \<open>t\<close>, negative or not, with \<open>\<bar>t * rate\<bar> \<le> 2 ^ 62\<close>,
  \<^verbatim>\<open>TimeToLongSamples(t)\<close> returns an integer within
  \<open>1/2 + \<bar>t * rate\<bar> / 2 ^ 51 + 1 / 2 ^ 53\<close> of \<open>t * rate\<close>: a nearest integer up to the
  rounding of the product and of the sum. When neither is rounded and the result is in
  the range of the 64-bit integer, it is \<open>floor (t * rate + 1/2)\<close>: no integer is nearer
  to \<open>t * rate\<close>, and a value half way between two integers goes to the upper one.
  \<^verbatim>\<open>LongSamplesToTime(n)\<close>, for a rate that is not zero and a 64-bit \<open>n\<close>, returns a double
  within \<open>\<bar>n / rate\<bar> / 2 ^ 51 + 1 / 2 ^ 1073\<close> of \<open>n / rate\<close>, and \<open>n / rate\<close> itself when
  \<open>n\<close> and \<open>n / rate\<close> are doubles.
\<close>

theorem TimeToLongSamples_rounding:
  "(\<bar>t * of_int (mRate trk)\<bar> \<le> 2 ^ 62 \<longrightarrow>
      (\<exists>n. TimeToLongSamples trk t = Some n \<and>
           \<bar>of_int n - t * of_int (mRate trk)\<bar>
             \<le> 1 / 2 + \<bar>t * of_int (mRate trk)\<bar> / 2 ^ 51 + 1 / 2 ^ 53)) \<and>
   (binary64 (t * of_int (mRate trk)) = Some (t * of_int (mRate trk)) \<and>
    binary64 (t * of_int (mRate trk) + 1 / 2) = Some (t * of_int (mRate trk) + 1 / 2) \<and>
    - (2 ^ 63) \<le> TimeToLongSamples_exact trk t \<and> TimeToLongSamples_exact trk t < 2 ^ 63 \<longrightarrow>
      TimeToLongSamples trk t = Some (TimeToLongSamples_exact trk t) \<and>
      (\<forall>k :: int. \<bar>of_int (TimeToLongSamples_exact trk t) - t * of_int (mRate trk)\<bar>
           \<le> \<bar>of_int k - t * of_int (mRate trk)\<bar>) \<and>
      of_int (TimeToLongSamples_exact trk t) - t * of_int (mRate trk) \<in> {- 1 / 2 <.. 1 / 2}) \<and>
   (mRate trk \<noteq> 0 \<and> \<bar>n\<bar> \<le> 2 ^ 63 \<longrightarrow>
      (\<exists>v. LongSamplesToTime trk n = Some v \<and>
           \<bar>v - of_int n / of_int (mRate trk)\<bar>
             \<le> \<bar>of_int n / of_int (mRate trk)\<bar> / 2 ^ 51 + 1 / 2 ^ 1073)) \<and>
   (mRate trk \<noteq> 0 \<and> binary64 (of_int n) = Some (of_int n) \<and>
    binary64 (of_int n / of_int (mRate trk)) = Some (of_int n / of_int (mRate trk)) \<longrightarrow>
      LongSamplesToTime trk n = Some (of_int n / of_int (mRate trk)))"
proof (intro conjI impI allI)
  assume "\<bar>t * of_int (mRate trk)\<bar> \<le> 2 ^ 62"
  then show "\<exists>n. TimeToLongSamples trk t = Some n \<and>
           \<bar>of_int n - t * of_int (mRate trk)\<bar>
             \<le> 1 / 2 + \<bar>t * of_int (mRate trk)\<bar> / 2 ^ 51 + 1 / 2 ^ 53"
    by (rule TimeToLongSamples_near) simp
next
  assume a: "binary64 (t * of_int (mRate trk)) = Some (t * of_int (mRate trk)) \<and>
    binary64 (t * of_int (mRate trk) + 1 / 2) = Some (t * of_int (mRate trk) + 1 / 2) \<and>
    - (2 ^ 63) \<le> TimeToLongSamples_exact trk t \<and> TimeToLongSamples_exact trk t < 2 ^ 63"
  then show "TimeToLongSamples trk t = Some (TimeToLongSamples_exact trk t)"
    by (simp add: TimeToLongSamples_def TimeToLongSamples_exact_def)
next
  fix k :: int
  have "TimeToLongSamples_exact trk t = round (t * of_int (mRate trk))"
    by (simp add: TimeToLongSamples_exact_def round_def)
  then show "\<bar>of_int (TimeToLongSamples_exact trk t) - t * of_int (mRate trk)\<bar>
           \<le> \<bar>of_int k - t * of_int (mRate trk)\<bar>"
    using round_diff_minimal [of "t * of_int (mRate trk)" k] by (simp add: abs_minus_commute)
next
  show "of_int (TimeToLongSamples_exact trk t) - t * of_int (mRate trk) \<in> {- 1 / 2 <.. 1 / 2}"
    unfolding TimeToLongSamples_exact_def by simp linarith
next
  assume "mRate trk \<noteq> 0 \<and> \<bar>n\<bar> \<le> 2 ^ 63"
  then show "\<exists>v. LongSamplesToTime trk n = Some v \<and>
           \<bar>v - of_int n / of_int (mRate trk)\<bar>
             \<le> \<bar>of_int n / of_int (mRate trk)\<bar> / 2 ^ 51 + 1 / 2 ^ 1073"
    by (intro LongSamplesToTime_near) simp_all
next
  assume "mRate trk \<noteq> 0 \<and> binary64 (of_int n) = Some (of_int n) \<and>
    binary64 (of_int n / of_int (mRate trk)) = Some (of_int n / of_int (mRate trk))"
  then show "LongSamplesToTime trk n = Some (of_int n / of_int (mRate trk))"
    by (simp add: LongSamplesToTime_def)
qed


theorem TimeToLongSamples_rounding_witness:
  "TimeToLongSamples \<lparr>mClips = [], mRate = 44100\<rparr> (3602879701896397 / 2 ^ 55) = Some 4410 \<and>
   \<bar>(of_int 4410 :: real) - 3602879701896397 / 2 ^ 55 * of_int 44100\<bar>
          \<le> 1 / 2 + \<bar>3602879701896397 / 2 ^ 55 * of_int 44100\<bar> / 2 ^ 51 + 1 / 2 ^ 53 \<and>
   TimeToLongSamples \<lparr>mClips = [], mRate = 44100\<rparr> (- 1 / 8) = Some (- 5512) \<and>
   LongSamplesToTime \<lparr>mClips = [], mRate = 44100\<rparr> 1 = Some (6692696262570359 / 2 ^ 68) \<and>
   \<bar>6692696262570359 / 2 ^ 68 - of_int 1 / of_int 44100\<bar>
          \<le> \<bar>of_int 1 / of_int 44100 :: real\<bar> / 2 ^ 51 + 1 / 2 ^ 1073 \<and>
   LongSamplesToTime \<lparr>mClips = [], mRate = 44100\<rparr> 22050 = Some (1 / 2)"
proof -
  let ?trk = "\<lparr>mClips = [], mRate = 44100\<rparr>"
  have m: "mRate ?trk = 44100" by simp
  have r0: "binary64_round (3602879701896397 / 2 ^ 55 * 44100) = 4410"
    by (subst binary64_round_eval [where e = "- 40"])
       (simp_all add: power_int_minus roundeven_def)
  have p0: "binary64 (3602879701896397 / 2 ^ 55 * 44100) = Some 4410"
    unfolding binary64_def r0 by (simp add: DBL_MAX_def)
  have s0: "binary64 (4410 + 1 / 2) = Some (4410 + 1 / 2)"
    by (rule binary64_exact [where e = "- 40" and m = "8821 * 2 ^ 39"])
       (simp_all add: power_int_minus)
  have v0: "TimeToLongSamples ?trk (3602879701896397 / 2 ^ 55) = Some 4410"
    using p0 s0 by (simp add: TimeToLongSamples_def)
  have p2: "binary64 (- 11025 / 2) = Some (- 11025 / 2)"
    by (rule binary64_exact [where e = "- 40" and m = "- 11025 * 2 ^ 39"])
       (simp_all add: power_int_minus)
  have s2: "binary64 (- 5512) = Some (- 5512)"
    by (rule binary64_exact [where e = "- 40" and m = "- 5512 * 2 ^ 40"])
       (simp_all add: power_int_minus)
  have d1: "binary64 1 = Some 1"
    by (rule binary64_exact [where e = "- 52" and m = "2 ^ 52"])
       (simp_all add: power_int_minus)
  have r1: "binary64_round (1 / 44100) = 6692696262570359 / 2 ^ 68"
    by (subst binary64_round_eval [where e = "- 68"])
       (simp_all add: power_int_minus roundeven_def)
  have q1: "binary64 (1 / 44100) = Some (6692696262570359 / 2 ^ 68)"
    unfolding binary64_def r1 by (simp add: DBL_MAX_def)
  have v1: "LongSamplesToTime ?trk 1 = Some (6692696262570359 / 2 ^ 68)"
    using d1 q1 by (simp add: LongSamplesToTime_def)
  have d: "binary64 22050 = Some 22050"
    by (rule binary64_exact [where e = "- 38" and m = "22050 * 2 ^ 38"])
       (simp_all add: power_int_minus)
  have q: "binary64 (1 / 2) = Some (1 / 2)"
    by (rule binary64_exact [where e = "- 53" and m = "2 ^ 52"])
       (simp_all add: power_int_minus)
  have a: "\<bar>3602879701896397 / 2 ^ 55 * of_int (mRate ?trk)\<bar> \<le> (2::real) ^ 62" by simp
  note inst1 = TimeToLongSamples_rounding [of "3602879701896397 / 2 ^ 55" ?trk 1]
  note inst2 = TimeToLongSamples_rounding [of "- 1 / 8" ?trk 22050]
  from conjunct1 [OF inst1] a
  have "\<exists>n. TimeToLongSamples ?trk (3602879701896397 / 2 ^ 55) = Some n \<and>
        \<bar>(of_int n :: real) - 3602879701896397 / 2 ^ 55 * of_int (mRate ?trk)\<bar>
          \<le> 1 / 2 + \<bar>3602879701896397 / 2 ^ 55 * of_int (mRate ?trk)\<bar> / 2 ^ 51 + 1 / 2 ^ 53"
    by (rule mp)
  then have w1: "\<bar>(of_int 4410 :: real) - 3602879701896397 / 2 ^ 55 * of_int (mRate ?trk)\<bar>
          \<le> 1 / 2 + \<bar>3602879701896397 / 2 ^ 55 * of_int (mRate ?trk)\<bar> / 2 ^ 51 + 1 / 2 ^ 53"
    unfolding v0 by blast
  have b: "mRate ?trk \<noteq> 0 \<and> \<bar>1 :: int\<bar> \<le> 2 ^ 63" by simp
  from conjunct1 [OF conjunct2 [OF conjunct2 [OF inst1]]] b
  have "\<exists>v. LongSamplesToTime ?trk 1 = Some v \<and>
        \<bar>v - of_int 1 / of_int (mRate ?trk)\<bar>
          \<le> \<bar>of_int 1 / of_int (mRate ?trk)\<bar> / 2 ^ 51 + 1 / 2 ^ 1073"
    by (rule mp)
  then have w3: "\<bar>6692696262570359 / 2 ^ 68 - of_int 1 / of_int (mRate ?trk)\<bar>
          \<le> \<bar>of_int 1 / of_int (mRate ?trk) :: real\<bar> / 2 ^ 51 + 1 / 2 ^ 1073"
    unfolding v1 by blast
  have w2: "TimeToLongSamples ?trk (- 1 / 8) = Some (- 5512)"
    using inst2 p2 s2 by (simp add: TimeToLongSamples_exact_def)
  have w4: "LongSamplesToTime ?trk 22050 = Some (1 / 2)"
    using inst2 d q by simp
  from v0 w1 [unfolded m] w2 v1 w3 [unfolded m] w4 show ?thesis by blast
qed

section \<open>Start and end time of a track\<close>

lemma GetStartTime_loop_le_best:
  "found \<Longrightarrow> snd (GetStartTime_loop (found, best) cs) \<le> best"
  by (induction cs arbitrary: best) (auto intro: order_trans less_imp_le)

lemma GetStartTime_loop_le_clip:
  "clip \<in> set cs \<Longrightarrow> snd (GetStartTime_loop (found, best) cs) \<le> WaveClip_GetStartTime clip"
proof (induction cs arbitrary: found best)
  case Nil
  then show ?case by simp
next
  case (Cons c cs)
  show ?case
  proof (cases "clip = c")
    case True
    have "snd (GetStartTime_loop (True, WaveClip_GetStartTime c) cs) \<le> WaveClip_GetStartTime c"
      by (rule GetStartTime_loop_le_best) simp
    moreover have "found \<Longrightarrow> \<not> WaveClip_GetStartTime c < best \<Longrightarrow>
        snd (GetStartTime_loop (found, best) cs) \<le> WaveClip_GetStartTime c"
      using GetStartTime_loop_le_best [of found best cs] by simp
    ultimately show ?thesis using True by simp
  next
    case False
    with Cons.prems have "clip \<in> set cs" by simp
    then show ?thesis using Cons.IH by simp
  qed
qed

lemma GetEndTime_loop_ge_best:
  "found \<Longrightarrow> best \<le> snd (GetEndTime_loop (found, best) cs)"
  by (induction cs arbitrary: best) (auto intro: order_trans less_imp_le)

lemma GetEndTime_loop_ge_clip:
  "clip \<in> set cs \<Longrightarrow> WaveClip_GetEndTime clip \<le> snd (GetEndTime_loop (found, best) cs)"
proof (induction cs arbitrary: found best)
  case Nil
  then show ?case by simp
next
  case (Cons c cs)
  show ?case
  proof (cases "clip = c")
    case True
    have "WaveClip_GetEndTime c \<le> snd (GetEndTime_loop (True, WaveClip_GetEndTime c) cs)"
      by (rule GetEndTime_loop_ge_best) simp
    moreover have "found \<Longrightarrow> \<not> WaveClip_GetEndTime c > best \<Longrightarrow>
        WaveClip_GetEndTime c \<le> snd (GetEndTime_loop (found, best) cs)"
      using GetEndTime_loop_ge_best [of found best cs] by simp
    ultimately show ?thesis using True by simp
  next
    case False
    with Cons.prems have "clip \<in> set cs" by simp
    then show ?thesis using Cons.IH by simp
  qed
qed

text \<open>
  C7. For every clip that a track holds, \<^verbatim>\<open>GetStartTime()\<close> is at most the clip's start
  time and \<^verbatim>\<open>GetEndTime()\<close> is at least the clip's end time; for a track with no clips
  both are 0.
\<close>

theorem GetStartTime_GetEndTime_bound:
  "(\<forall>clip \<in> set (mClips trk).
      GetStartTime trk \<le> WaveClip_GetStartTime clip \<and>
      WaveClip_GetEndTime clip \<le> GetEndTime trk) \<and>
   (mClips trk = [] \<longrightarrow> GetStartTime trk = 0 \<and> GetEndTime trk = 0)"
  by (auto simp: GetStartTime_def GetEndTime_def
        intro: GetStartTime_loop_le_clip GetEndTime_loop_ge_clip)

theorem GetStartTime_GetEndTime_bound_witness:
  "WaveClip 1 10 20 [] False
     \<in> set (mClips \<lparr>mClips = [WaveClip 2 10 5 [] False, WaveClip 1 10 20 [] False], mRate = 10\<rparr>) \<and>
   GetStartTime \<lparr>mClips = [WaveClip 2 10 5 [] False, WaveClip 1 10 20 [] False], mRate = 10\<rparr>
     \<le> WaveClip_GetStartTime (WaveClip 1 10 20 [] False) \<and>
   WaveClip_GetEndTime (WaveClip 1 10 20 [] False)
     \<le> GetEndTime \<lparr>mClips = [WaveClip 2 10 5 [] False, WaveClip 1 10 20 [] False], mRate = 10\<rparr> \<and>
   mClips \<lparr>mClips = [], mRate = 10\<rparr> = [] \<and>
   GetStartTime \<lparr>mClips = [], mRate = 10\<rparr> = 0 \<and> GetEndTime \<lparr>mClips = [], mRate = 10\<rparr> = 0"
  using GetStartTime_GetEndTime_bound
          [of "\<lparr>mClips = [WaveClip 2 10 5 [] False, WaveClip 1 10 20 [] False], mRate = 10\<rparr>"]
        GetStartTime_GetEndTime_bound [of "\<lparr>mClips = [], mRate = 10\<rparr>"]
  by simp

section \<open>Reversed arguments\<close>

text \<open>
  C9. If \<open>t0 > t1\<close>, \<^verbatim>\<open>IsEmpty(t0, t1)\<close> returns \<^verbatim>\<open>true\<close> and raises nothing, whereas
  \<^verbatim>\<open>Cut\<close>, \<^verbatim>\<open>Copy\<close>, \<^verbatim>\<open>HandleClear\<close> and \<^verbatim>\<open>Silence\<close> throw the inconsistency exception for
  the same arguments.
\<close>

theorem IsEmpty_reversed_true:
  "t0 > t1 \<Longrightarrow>
     IsEmpty trk t0 t1 = True \<and>
     Cut editClipCanMove t0 t1 trk = (Inl InconsistencyException, trk) \<and>
     Copy t0 t1 forClipboard trk = Inl InconsistencyException \<and>
     HandleClear editClipCanMove t0 t1 addCutLines split trk
       = (Some InconsistencyException, trk) \<and>
     Silence t0 t1 trk = (Some InconsistencyException, trk)"
  by (simp add: IsEmpty_def Cut_def Copy_def HandleClear_def Silence_def)

theorem IsEmpty_reversed_true_witness:
  "(4 :: real) > 3 \<and>
   IsEmpty \<lparr>mClips = [WaveClip 0 44100 441000 [] False], mRate = 44100\<rparr> 4 3 = True \<and>
   Copy 4 3 True \<lparr>mClips = [WaveClip 0 44100 441000 [] False], mRate = 44100\<rparr>
     = Inl InconsistencyException"
  using IsEmpty_reversed_true [of 3 4
      "\<lparr>mClips = [WaveClip 0 44100 441000 [] False], mRate = 44100\<rparr>" True True True False]
  by simp

section \<open>Minimum and maximum of a region\<close>

lemma GetMinMax_loop_no_clip:
  "\<forall>clip \<in> set cs. \<not> (t1 \<ge> WaveClip_GetStartTime clip \<and> t0 \<le> WaveClip_GetEndTime clip) \<Longrightarrow>
   GetMinMax_loop g t0 t1 mayThrow (found, lo, hi) cs = Inr (found, lo, hi)"
  by (induction cs) auto

text \<open>
  C10. \<^verbatim>\<open>GetMinMax(t0, t1)\<close> with \<open>t0 = t1\<close> returns the pair \<open>(FLT_MAX, -FLT_MAX)\<close>; with
  \<open>t0 < t1\<close> and no clip meeting \<open>[t0, t1]\<close> it returns \<open>(0, 0)\<close>.
\<close>

theorem GetMinMax_sentinel_and_default:
  "(t0 = t1 \<longrightarrow> GetMinMax clipGetMinMax trk t0 t1 mayThrow = Inr (FLT_MAX, - FLT_MAX)) \<and>
   (t0 < t1 \<and>
    (\<forall>clip \<in> set (mClips trk).
        \<not> (t1 \<ge> WaveClip_GetStartTime clip \<and> t0 \<le> WaveClip_GetEndTime clip)) \<longrightarrow>
      GetMinMax clipGetMinMax trk t0 t1 mayThrow = Inr (0, 0))"
proof (intro conjI impI)
  assume "t0 = t1"
  then show "GetMinMax clipGetMinMax trk t0 t1 mayThrow = Inr (FLT_MAX, - FLT_MAX)"
    by (simp add: GetMinMax_def)
next
  assume a: "t0 < t1 \<and>
    (\<forall>clip \<in> set (mClips trk).
        \<not> (t1 \<ge> WaveClip_GetStartTime clip \<and> t0 \<le> WaveClip_GetEndTime clip))"
  then have "GetMinMax_loop clipGetMinMax t0 t1 mayThrow (False, FLT_MAX, - FLT_MAX) (mClips trk)
      = Inr (False, FLT_MAX, - FLT_MAX)"
    by (intro GetMinMax_loop_no_clip) simp
  with a show "GetMinMax clipGetMinMax trk t0 t1 mayThrow = Inr (0, 0)"
    by (simp add: GetMinMax_def)
qed

theorem GetMinMax_sentinel_and_default_witness:
  "GetMinMax (\<lambda>clip t0 t1 mayThrow. Inr (- 1, 1))
     \<lparr>mClips = [WaveClip 0 10 10 [] False], mRate = 10\<rparr> (1 / 2) (1 / 2) True
     = Inr (FLT_MAX, - FLT_MAX) \<and>
   (2 :: real) < 3 \<and>
   \<not> (3 \<ge> WaveClip_GetStartTime (WaveClip 0 10 10 [] False) \<and>
      2 \<le> WaveClip_GetEndTime (WaveClip 0 10 10 [] False)) \<and>
   GetMinMax (\<lambda>clip t0 t1 mayThrow. Inr (- 1, 1))
     \<lparr>mClips = [WaveClip 0 10 10 [] False], mRate = 10\<rparr> 2 3 True = Inr (0, 0)"
  using GetMinMax_sentinel_and_default [of "1 / 2" "1 / 2" "\<lambda>clip t0 t1 mayThrow. Inr (- 1, 1)"
          "\<lparr>mClips = [WaveClip 0 10 10 [] False], mRate = 10\<rparr>" True]
        GetMinMax_sentinel_and_default [of 2 3 "\<lambda>clip t0 t1 mayThrow. Inr (- 1, 1)"
          "\<lparr>mClips = [WaveClip 0 10 10 [] False], mRate = 10\<rparr>" True]
  by (simp add: WaveClip_GetStartTime_def WaveClip_GetEndTime_def)

section \<open>The sample read cache\<close>

lemma Get_fillFirst_ok:
  "Get_fillFirst rd mayThrow fillFirst fillSecond c start = (Some b, c', fs) \<Longrightarrow>
   \<forall>f \<in> set fs. fetch_ok f"
  by (auto simp: Get_fillFirst_def Let_def fetch_ok_def split: if_splits option.splits)

lemma Get_fillSecond_ok:
  "Get_fillSecond rd mayThrow fillSecond c end' = (True, c', fs) \<Longrightarrow>
   \<forall>f \<in> set fs. fetch_ok f"
  by (auto simp: Get_fillSecond_def Let_def fetch_ok_def split: if_splits option.splits)

lemma Get_finish_ok:
  "Get_finish rd c format mayThrow made served = (Some p, c', fs) \<Longrightarrow>
   \<forall>f \<in> set made. fetch_ok f \<Longrightarrow> \<forall>f \<in> set fs. fetch_ok f"
  by (auto simp: Get_finish_def fetch_ok_def split: sum.splits prod.splits if_splits option.splits)

lemma Get_ok:
  assumes "Get rd c format start len mayThrow = (Some p, c', fs)"
  shows "\<forall>f \<in> set fs. fetch_ok f"
proof (cases "format = floatSample \<and> len > 0")
  case False
  with assms show ?thesis
    by (auto simp: Get_def fetch_ok_def split: option.splits)
next
  case True
  obtain fillFirst fillSecond c1 where d: "Get_discard rd c start (start + int len) = (fillFirst, fillSecond, c1)"
    by (cases "Get_discard rd c start (start + int len)") auto
  obtain r1 c2 log1 where f1: "Get_fillFirst rd mayThrow fillFirst fillSecond c1 start = (r1, c2, log1)"
    by (cases "Get_fillFirst rd mayThrow fillFirst fillSecond c1 start") auto
  from assms True d f1 obtain b where r1: "r1 = Some b"
    by (cases r1) (auto simp: Get_def)
  obtain r2 c3 log2 where f2: "Get_fillSecond rd mayThrow b c2 (start + int len) = (r2, c3, log2)"
    by (cases "Get_fillSecond rd mayThrow b c2 (start + int len)") auto
  from assms True d f1 r1 f2 have r2: "r2"
    by (cases r2) (auto simp: Get_def)
  have l1: "\<forall>f \<in> set log1. fetch_ok f"
    using Get_fillFirst_ok [of rd mayThrow fillFirst fillSecond c1 start b c2 log1] f1 r1 by simp
  have l2: "\<forall>f \<in> set log2. fetch_ok f"
    using Get_fillSecond_ok [of rd mayThrow b c2 "start + int len" c3 log2] f2 r2 by simp
  have l12: "\<forall>f \<in> set (log1 @ log2). fetch_ok f" using l1 l2 by auto
  define initLen where "initLen = (if mNValidBuffers c3 < 1 then int len
                                     else min (int len) (buf_start (mBuffers c3 0) - start))"
  have G: "Get rd c format start len mayThrow =
     (if initLen > 0 then
        (case trackGet rd format start (nat initLen) mayThrow of
           None \<Rightarrow> (None, c3, log1 @ log2 @ [(format, start, nat initLen, False)])
         | Some d \<Rightarrow>
             Get_finish rd c3 format mayThrow
               (log1 @ log2 @ [(format, start, nat initLen, True)])
               (Get_serve c3 len initLen 0 (start + initLen) (len - nat initLen) d))
      else Get_finish rd c3 format mayThrow (log1 @ log2)
             (Get_serve c3 len initLen 0 start len []))"
    using True d f1 r1 f2 r2 by (simp add: Get_def Let_def initLen_def cong: option.case_cong)
  show ?thesis
  proof (cases "initLen > 0")
    case False
    with G assms have "Get_finish rd c3 format mayThrow (log1 @ log2)
             (Get_serve c3 len initLen 0 start len []) = (Some p, c', fs)" by simp
    from Get_finish_ok [OF this l12] show ?thesis .
  next
    case pos: True
    show ?thesis
    proof (cases "trackGet rd format start (nat initLen) mayThrow")
      case None
      with G pos assms show ?thesis by simp
    next
      case (Some d)
      have l3: "\<forall>f \<in> set (log1 @ log2 @ [(format, start, nat initLen, True)]). fetch_ok f"
        using l1 l2 by (auto simp: fetch_ok_def)
      from G pos Some assms have "Get_finish rd c3 format mayThrow
               (log1 @ log2 @ [(format, start, nat initLen, True)])
               (Get_serve c3 len initLen 0 (start + initLen) (len - nat initLen) d) = (Some p, c', fs)"
        by simp
      from Get_finish_ok [OF this l3] show ?thesis .
    qed
  qed
qed

text \<open>
  C8. \<^verbatim>\<open>WaveTrackCache::Get\<close> uses its buffers only when the format is the float format and
  the length is positive: any other request is one direct fetch into the overlap buffer,
  and the two buffers and their count stay as they are. Whenever a fetch made by the call
  reports failure, the call returns the null pointer.
\<close>

theorem Get_bypass_and_failure:
  "(format \<noteq> floatSample \<or> len = 0 \<longrightarrow>
      Get rd c format start len mayThrow =
        (case trackGet rd format start len mayThrow of
           Some d \<Rightarrow> (Some d, c\<lparr>mOverlapBuffer := d\<rparr>, [(format, start, len, True)])
         | None \<Rightarrow> (None, c, [(format, start, len, False)]))) \<and>
   ((\<exists>f \<in> set (snd (snd (Get rd c format start len mayThrow))). \<not> fetch_ok f) \<longrightarrow>
      fst (Get rd c format start len mayThrow) = None)"
proof (intro conjI impI)
  assume "format \<noteq> floatSample \<or> len = 0"
  then show "Get rd c format start len mayThrow =
        (case trackGet rd format start len mayThrow of
           Some d \<Rightarrow> (Some d, c\<lparr>mOverlapBuffer := d\<rparr>, [(format, start, len, True)])
         | None \<Rightarrow> (None, c, [(format, start, len, False)]))"
    by (auto simp: Get_def)
next
  assume bad: "\<exists>f \<in> set (snd (snd (Get rd c format start len mayThrow))). \<not> fetch_ok f"
  show "fst (Get rd c format start len mayThrow) = None"
  proof (rule ccontr)
    assume "fst (Get rd c format start len mayThrow) \<noteq> None"
    then obtain p c' fs where "Get rd c format start len mayThrow = (Some p, c', fs)"
      by (cases "Get rd c format start len mayThrow") auto
    with Get_ok bad show False by fastforce
  qed
qed

theorem Get_bypass_and_failure_witness:
  "int16Sample \<noteq> floatSample \<and>
   Get \<lparr>trackGet = (\<lambda>format start len mayThrow. Some (replicate len 0)),
        GetBlockStart = (\<lambda>s. 0), GetBestBlockSize = (\<lambda>s. 4)\<rparr>
       \<lparr>mBuffers0 = \<lparr>buf_data = [], buf_start = 0, buf_len = 0\<rparr>,
        mBuffers1 = \<lparr>buf_data = [], buf_start = 0, buf_len = 0\<rparr>,
        mNValidBuffers = 0, mOverlapBuffer = []\<rparr> int16Sample 0 2 False
     = (Some [0, 0],
        \<lparr>mBuffers0 = \<lparr>buf_data = [], buf_start = 0, buf_len = 0\<rparr>,
         mBuffers1 = \<lparr>buf_data = [], buf_start = 0, buf_len = 0\<rparr>,
         mNValidBuffers = 0, mOverlapBuffer = [0, 0]\<rparr>,
        [(int16Sample, 0, 2, True)]) \<and>
   \<not> fetch_ok (floatSample, 0, 4, False) \<and>
   snd (snd (Get \<lparr>trackGet = (\<lambda>format start len mayThrow. None),
                   GetBlockStart = (\<lambda>s. 0), GetBestBlockSize = (\<lambda>s. 4)\<rparr>
       \<lparr>mBuffers0 = \<lparr>buf_data = [], buf_start = 0, buf_len = 0\<rparr>,
        mBuffers1 = \<lparr>buf_data = [], buf_start = 0, buf_len = 0\<rparr>,
        mNValidBuffers = 0, mOverlapBuffer = []\<rparr> floatSample 0 2 False))
     = [(floatSample, 0, 4, False)] \<and>
   fst (Get \<lparr>trackGet = (\<lambda>format start len mayThrow. None),
             GetBlockStart = (\<lambda>s. 0), GetBestBlockSize = (\<lambda>s. 4)\<rparr>
       \<lparr>mBuffers0 = \<lparr>buf_data = [], buf_start = 0, buf_len = 0\<rparr>,
        mBuffers1 = \<lparr>buf_data = [], buf_start = 0, buf_len = 0\<rparr>,
        mNValidBuffers = 0, mOverlapBuffer = []\<rparr> floatSample 0 2 False) = None"
proof -
  have log: "snd (snd (Get \<lparr>trackGet = (\<lambda>format start len mayThrow. None),
                   GetBlockStart = (\<lambda>s. 0), GetBestBlockSize = (\<lambda>s. 4)\<rparr>
       \<lparr>mBuffers0 = \<lparr>buf_data = [], buf_start = 0, buf_len = 0\<rparr>,
        mBuffers1 = \<lparr>buf_data = [], buf_start = 0, buf_len = 0\<rparr>,
        mNValidBuffers = 0, mOverlapBuffer = []\<rparr> floatSample 0 2 False))
     = [(floatSample, 0, 4, False)]"
    by (simp add: Get_def Get_discard_def Get_fillFirst_def)
  have bad: "\<not> fetch_ok (floatSample, 0, 4, False)"
    by (simp add: fetch_ok_def)
  show ?thesis
    using log bad
      Get_bypass_and_failure [of int16Sample 2
        "\<lparr>trackGet = (\<lambda>format start len mayThrow. Some (replicate len 0)),
          GetBlockStart = (\<lambda>s. 0), GetBestBlockSize = (\<lambda>s. 4)\<rparr>"
        "\<lparr>mBuffers0 = \<lparr>buf_data = [], buf_start = 0, buf_len = 0\<rparr>,
          mBuffers1 = \<lparr>buf_data = [], buf_start = 0, buf_len = 0\<rparr>,
          mNValidBuffers = 0, mOverlapBuffer = []\<rparr>" 0 False]
      Get_bypass_and_failure [of floatSample 2
        "\<lparr>trackGet = (\<lambda>format start len mayThrow. None),
          GetBlockStart = (\<lambda>s. 0), GetBestBlockSize = (\<lambda>s. 4)\<rparr>"
        "\<lparr>mBuffers0 = \<lparr>buf_data = [], buf_start = 0, buf_len = 0\<rparr>,
          mBuffers1 = \<lparr>buf_data = [], buf_start = 0, buf_len = 0\<rparr>,
          mNValidBuffers = 0, mOverlapBuffer = []\<rparr>" 0 False]
    by (simp add: numeral_2_eq_2)
qed

section \<open>Clearing a region and asking whether it is empty\<close>

lemma IsEmpty_loop_iff:
  "IsEmpty_loop t0 t1 cs \<longleftrightarrow> (\<forall>c \<in> set cs. BeforeClip c t1 \<or> AfterClip c t0)"
  by (induction cs) auto

lemma kept_filter:
  "map snd (filter (\<lambda>(plan, clip). \<not> fst plan) (zip (map f xs) (map g xs)))
   = map g (filter (\<lambda>clip. \<not> fst (f clip)) xs)"
  by (induction xs) auto

lemma Clear_clip_kept_iff:
  assumes k: "\<not> fst (HandleClear_clip t0 t1 False False c)"
  shows "(BeforeClip (HandleClear_shift editClipCanMove t0 t1 False c) t1 \<or>
          AfterClip (HandleClear_shift editClipCanMove t0 t1 False c) t0) \<longleftrightarrow>
         (editClipCanMove \<and> BeforeClip c t1 \<longrightarrow>
            BeforeClip (Offset (- (t1 - t0)) c) t1 \<or> AfterClip (Offset (- (t1 - t0)) c) t0)"
proof -
  from k have out: "BeforeClip c t1 \<or> AfterClip c t0"
    by (auto simp: HandleClear_clip_def split: if_splits)
  then show ?thesis by (auto simp: HandleClear_shift_def)
qed

lemma BeforeClip_Clear: "BeforeClip (WaveClip_Clear u0 u1 c) t \<longleftrightarrow> BeforeClip c t"
  by (simp add: BeforeClip_def WaveClip_Clear_def GetStartSample_def clipSample_def Let_def)

lemma Clear_clip_added_iff:
  "(\<forall>c' \<in> set (snd (HandleClear_clip t0 t1 False False c)).
       BeforeClip c' t1 \<or> AfterClip c' t0) \<longleftrightarrow>
   (\<not> BeforeClip c t1 \<and> \<not> AfterClip c t0 \<and> \<not> (BeforeClip c t0 \<and> AfterClip c t1) \<longrightarrow>
      AfterClip (WaveClip_Clear t0 t1 c) t0)"
  by (auto simp: HandleClear_clip_def BeforeClip_Clear)

lemma HandleClear_clip_kept_iff:
  "\<not> fst (HandleClear_clip t0 t1 False False c) \<longleftrightarrow>
   \<not> (BeforeClip c t0 \<and> AfterClip c t1) \<and> (BeforeClip c t1 \<or> AfterClip c t0)"
  by (auto simp: HandleClear_clip_def)

text \<open>
  C3, as stated, fails, in three ways. After \<^verbatim>\<open>Clear(3, 4)\<close> on one clip \<open>[0, 10)\<close> the
  clip has shortened to \<open>[0, 9)\<close>: the audio that followed the region has closed the
  gap, and \<^verbatim>\<open>IsEmpty(3, 4)\<close> is false under either setting of the preference. When clips
  may move, \<^verbatim>\<open>Clear(3, 4)\<close> on the clips \<open>[0, 3)\<close> and \<open>[4, 8)\<close> moves the second clip to
  \<open>[3, 7)\<close>. And a clip whose offset is not a whole number of samples (offset \<open>3/32\<close> at
  8 Hz, first sample 1) keeps three samples when it is cleared from \<open>27/64\<close> on, whose
  sample is 3: it ends at sample 4, inside the region.
\<close>

theorem Clear_then_IsEmpty_counterexample:
  "\<not> IsEmpty (snd (Clear True 3 4 \<lparr>mClips = [WaveClip 0 10 100 [] False], mRate = 10\<rparr>)) 3 4 \<and>
   \<not> IsEmpty (snd (Clear False 3 4 \<lparr>mClips = [WaveClip 0 10 100 [] False], mRate = 10\<rparr>)) 3 4 \<and>
   \<not> IsEmpty (snd (Clear True 3 4
        \<lparr>mClips = [WaveClip 0 10 30 [] False, WaveClip 4 10 40 [] False], mRate = 10\<rparr>)) 3 4 \<and>
   \<not> IsEmpty (snd (Clear False (27 / 64) 20
        \<lparr>mClips = [WaveClip (3 / 32) 8 100 [] False], mRate = 8\<rparr>)) (27 / 64) 20"
  by (simp add: Clear_def HandleClear_def HandleClear_clip_def HandleClear_shift_def IsEmpty_def
        clip_defs)

text \<open>
  C3, amended. For every track and \<open>t0 \<le> t1\<close>, under both settings of the preference,
  \<^verbatim>\<open>Clear(t0, t1)\<close> returns normally and \<^verbatim>\<open>IsEmpty(t0, t1)\<close> is true afterwards exactly
  when two conditions hold. Every clip that the region overlaps without containing it
  ends, once \<open>[t0, t1)\<close> is cleared from it, at or before \<open>t0\<close>. And, if clips may move,
  every clip that starts at or after \<open>t1\<close> (and is not deleted) lies, once moved left by
  \<open>t1 - t0\<close>, still at or after \<open>t1\<close> or at or before \<open>t0\<close>.
\<close>

theorem Clear_then_IsEmpty_iff:
  assumes t: "t0 \<le> t1"
  shows "\<exists>trk'. Clear editClipCanMove t0 t1 trk = (None, trk') \<and>
           (IsEmpty trk' t0 t1 \<longleftrightarrow>
              (\<forall>clip \<in> set (mClips trk).
                 \<not> BeforeClip clip t1 \<and> \<not> AfterClip clip t0 \<and>
                 \<not> (BeforeClip clip t0 \<and> AfterClip clip t1) \<longrightarrow>
                   AfterClip (WaveClip_Clear t0 t1 clip) t0) \<and>
              (\<forall>clip \<in> set (mClips trk).
                 editClipCanMove \<and> BeforeClip clip t1 \<and>
                 \<not> (BeforeClip clip t0 \<and> AfterClip clip t1) \<longrightarrow>
                   BeforeClip (Offset (- (t1 - t0)) clip) t1 \<or>
                   AfterClip (Offset (- (t1 - t0)) clip) t0))"
proof -
  let ?plan = "HandleClear_clip t0 t1 False False"
  let ?shift = "HandleClear_shift editClipCanMove t0 t1 False"
  let ?kept = "map ?shift (filter (\<lambda>clip. \<not> fst (?plan clip)) (mClips trk))"
  let ?added = "concat (map snd (map ?plan (mClips trk)))"
  let ?out = "\<lambda>c. BeforeClip c t1 \<or> AfterClip c t0"
  have run: "Clear editClipCanMove t0 t1 trk = (None, trk\<lparr>mClips := ?kept @ ?added\<rparr>)"
    using t by (simp add: Clear_def HandleClear_def Let_def kept_filter)
  have e: "IsEmpty (trk\<lparr>mClips := ?kept @ ?added\<rparr>) t0 t1 \<longleftrightarrow>
           (\<forall>c \<in> set ?kept. ?out c) \<and> (\<forall>c \<in> set ?added. ?out c)"
    using t by (auto simp: IsEmpty_def IsEmpty_loop_iff)
  have k: "(\<forall>c \<in> set ?kept. ?out c) \<longleftrightarrow>
           (\<forall>clip \<in> set (mClips trk).
              editClipCanMove \<and> BeforeClip clip t1 \<and>
              \<not> (BeforeClip clip t0 \<and> AfterClip clip t1) \<longrightarrow>
                BeforeClip (Offset (- (t1 - t0)) clip) t1 \<or>
                AfterClip (Offset (- (t1 - t0)) clip) t0)"
  proof -
    have "(\<forall>c \<in> set ?kept. ?out c) \<longleftrightarrow>
          (\<forall>clip \<in> set (mClips trk). \<not> fst (?plan clip) \<longrightarrow> ?out (?shift clip))"
      by auto
    also have "\<dots> \<longleftrightarrow>
          (\<forall>clip \<in> set (mClips trk). \<not> fst (?plan clip) \<longrightarrow>
             (editClipCanMove \<and> BeforeClip clip t1 \<longrightarrow>
                BeforeClip (Offset (- (t1 - t0)) clip) t1 \<or>
                AfterClip (Offset (- (t1 - t0)) clip) t0))"
      using Clear_clip_kept_iff [of t0 t1 _ editClipCanMove] by blast
    also have "\<dots> \<longleftrightarrow>
          (\<forall>clip \<in> set (mClips trk).
              editClipCanMove \<and> BeforeClip clip t1 \<and>
              \<not> (BeforeClip clip t0 \<and> AfterClip clip t1) \<longrightarrow>
                BeforeClip (Offset (- (t1 - t0)) clip) t1 \<or>
                AfterClip (Offset (- (t1 - t0)) clip) t0)"
      unfolding HandleClear_clip_kept_iff by blast
    finally show ?thesis .
  qed
  have a: "(\<forall>c \<in> set ?added. ?out c) \<longleftrightarrow>
           (\<forall>clip \<in> set (mClips trk).
              \<not> BeforeClip clip t1 \<and> \<not> AfterClip clip t0 \<and>
              \<not> (BeforeClip clip t0 \<and> AfterClip clip t1) \<longrightarrow>
                AfterClip (WaveClip_Clear t0 t1 clip) t0)"
  proof -
    have "(\<forall>c \<in> set ?added. ?out c) \<longleftrightarrow>
          (\<forall>clip \<in> set (mClips trk). \<forall>c' \<in> set (snd (?plan clip)). ?out c')"
      by auto
    then show ?thesis unfolding Clear_clip_added_iff .
  qed
  from run e k a show ?thesis by blast
qed

theorem Clear_then_IsEmpty_iff_witness:
  "IsEmpty (snd (Clear True 3 4
       \<lparr>mClips = [WaveClip 0 10 30 [] False, WaveClip 5 10 30 [] False], mRate = 10\<rparr>)) 3 4 \<and>
   IsEmpty (snd (Clear False 3 4
       \<lparr>mClips = [WaveClip 0 10 35 [] False, WaveClip 4 10 30 [] False], mRate = 10\<rparr>)) 3 4"
proof -
  have le: "(3 :: real) \<le> 4" by simp
  have c: "\<not> BeforeClip (WaveClip 0 10 30 [] False) 4" "AfterClip (WaveClip 0 10 30 [] False) 3"
    "BeforeClip (WaveClip 5 10 30 [] False) 4" "\<not> AfterClip (WaveClip 5 10 30 [] False) 4"
    "BeforeClip (Offset (- (4 - 3)) (WaveClip 5 10 30 [] False)) 4"
    "\<not> BeforeClip (WaveClip 0 10 35 [] False) 4" "\<not> AfterClip (WaveClip 0 10 35 [] False) 3"
    "AfterClip (WaveClip_Clear 3 4 (WaveClip 0 10 35 [] False)) 3"
    "BeforeClip (WaveClip 4 10 30 [] False) 4"
    by (simp_all add: clip_defs)
  from Clear_then_IsEmpty_iff [OF le, of True
      "\<lparr>mClips = [WaveClip 0 10 30 [] False, WaveClip 5 10 30 [] False], mRate = 10\<rparr>"]
    Clear_then_IsEmpty_iff [OF le, of False
      "\<lparr>mClips = [WaveClip 0 10 35 [] False, WaveClip 4 10 30 [] False], mRate = 10\<rparr>"]
    c
  show ?thesis by auto
qed

section \<open>Clips on the sample grid\<close>










section \<open>Paste\<close>






















end
